theory Spec2Isabelle
  imports Complex_Main "HOL-Library.Word"
begin

section \<open>JavaScript values\<close>

text \<open>
  A JavaScript string is a sequence of UTF-16 code units; \<open>.length\<close> counts them and a
  regular expression without the \<open>u\<close> flag matches them one by one. The literals of the
  program are ASCII and are written through \<open>jstr\<close>.
\<close>

type_synonym code_unit = "16 word"
type_synonym jstring = "code_unit list"

definition jstr :: "string \<Rightarrow> jstring" where
  "jstr s = map (\<lambda>c. of_nat (of_char c)) s"

text \<open>
  A Number is a finite value, an infinity or NaN. Finite values are kept as exact
  rationals: comparisons and \<open>Number.isInteger\<close> depend on the exact value only.
\<close>

datatype number = Finite rat | NaN | PosInfinity | NegInfinity

fun num_le :: "number \<Rightarrow> number \<Rightarrow> bool" where
  "num_le NaN _ = False"
| "num_le _ NaN = False"
| "num_le NegInfinity _ = True"
| "num_le _ PosInfinity = True"
| "num_le (Finite a) (Finite b) = (a \<le> b)"
| "num_le _ _ = False"

definition num_ge :: "number \<Rightarrow> number \<Rightarrow> bool" where
  "num_ge a b = num_le b a"

fun isInteger :: "number \<Rightarrow> bool" where
  "isInteger (Finite x) = (of_int \<lfloor>x\<rfloor> = x)"
| "isInteger _ = False"

text \<open>Truthiness of a Number: \<open>0\<close> and NaN are falsy.\<close>

fun truthy_number :: "number \<Rightarrow> bool" where
  "truthy_number (Finite x) = (x \<noteq> 0)"
| "truthy_number NaN = False"
| "truthy_number _ = True"

datatype jsval =
    JUndefined
  | JNull
  | JBool bool
  | JNum number
  | JStr jstring
  | JArr "jsval list"

section \<open>The zod combinators used by \<open>formSchema\<close>\<close>

text \<open>
  A zod parse ends \<open>valid\<close> (a value, no issue), \<open>dirty\<close> (a value and issues) or
  \<open>aborted\<close> (issues only). \<open>Parsed v []\<close> is the valid result. Issues are kept as
  their messages.
\<close>

datatype 'a parsed = Parsed 'a "string list" | Aborted "string list"

fun issues :: "'a parsed \<Rightarrow> string list" where
  "issues (Parsed v is) = is"
| "issues (Aborted is) = is"

fun is_valid :: "'a parsed \<Rightarrow> bool" where
  "is_valid (Parsed v is) = (is = [])"
| "is_valid (Aborted is) = False"

fun is_dirty :: "'a parsed \<Rightarrow> bool" where
  "is_dirty (Parsed v is) = (is \<noteq> [])"
| "is_dirty (Aborted is) = False"

fun is_aborted :: "'a parsed \<Rightarrow> bool" where
  "is_aborted (Parsed v is) = False"
| "is_aborted (Aborted is) = True"

fun parsed_value :: "'a parsed \<Rightarrow> 'a option" where
  "parsed_value (Parsed v is) = Some v"
| "parsed_value (Aborted is) = None"

fun map_parsed :: "('a \<Rightarrow> 'b) \<Rightarrow> 'a parsed \<Rightarrow> 'b parsed" where
  "map_parsed f (Parsed v is) = Parsed (f v) is"
| "map_parsed f (Aborted is) = Aborted is"

text \<open>The message of zod's \<open>invalid_type\<close> issue.\<close>

fun type_name :: "jsval \<Rightarrow> string" where
  "type_name JUndefined = ''undefined''"
| "type_name JNull = ''null''"
| "type_name (JBool b) = ''boolean''"
| "type_name (JNum NaN) = ''nan''"
| "type_name (JNum n) = ''number''"
| "type_name (JStr s) = ''string''"
| "type_name (JArr xs) = ''array''"

definition invalid_type :: "string \<Rightarrow> jsval \<Rightarrow> string" where
  "invalid_type expected v =
     (if v = JUndefined then ''Required''
      else ''Expected '' @ expected @ '', received '' @ type_name v)"

text \<open>
  \<open>z.string()\<close> with its checks: a non-string aborts; on a string every check runs and
  the issues of all of them are collected.
\<close>

definition min_len :: "nat \<Rightarrow> string \<Rightarrow> jstring \<Rightarrow> string list" where
  "min_len n msg s = (if length s < n then [msg] else [])"

definition max_len :: "nat \<Rightarrow> string \<Rightarrow> jstring \<Rightarrow> string list" where
  "max_len n msg s = (if length s > n then [msg] else [])"

definition regex :: "(jstring \<Rightarrow> bool) \<Rightarrow> string \<Rightarrow> jstring \<Rightarrow> string list" where
  "regex test msg s = (if test s then [] else [msg])"

definition z_string :: "(jstring \<Rightarrow> string list) list \<Rightarrow> jsval \<Rightarrow> jstring parsed" where
  "z_string checks v =
     (case v of
        JStr s \<Rightarrow> Parsed s (concat (map (\<lambda>c. c s) checks))
      | _ \<Rightarrow> Aborted [invalid_type ''string'' v])"

text \<open>\<open>z.number().int(msg)\<close>: NaN is not of type number; a non-integer is dirty.\<close>

definition z_number_int :: "string \<Rightarrow> jsval \<Rightarrow> number parsed" where
  "z_number_int msg v =
     (case v of
        JNum n \<Rightarrow>
          (if n = NaN then Aborted [invalid_type ''number'' v]
           else Parsed n (if isInteger n then [] else [msg]))
      | _ \<Rightarrow> Aborted [invalid_type ''number'' v])"

text \<open>\<open>z.literal("")\<close>.\<close>

definition z_literal_empty :: "jsval \<Rightarrow> unit parsed" where
  "z_literal_empty v =
     (if v = JStr [] then Parsed () [] else Aborted [''Invalid literal value''])"

text \<open>\<open>z.boolean()\<close>.\<close>

definition z_boolean :: "jsval \<Rightarrow> bool parsed" where
  "z_boolean v = (case v of JBool b \<Rightarrow> Parsed b [] | _ \<Rightarrow> Aborted [invalid_type ''boolean'' v])"

text \<open>
  \<open>z.union\<close>: the first option that is valid wins; otherwise the first dirty one is
  returned with its issues; otherwise the union aborts with \<open>invalid_union\<close>.
\<close>

definition z_union :: "(jsval \<Rightarrow> 'a parsed) list \<Rightarrow> jsval \<Rightarrow> 'a parsed" where
  "z_union options v =
     (let results = map (\<lambda>option. option v) options in
      case find is_valid results of
        Some r \<Rightarrow> r
      | None \<Rightarrow>
          (case find is_dirty results of
             Some r \<Rightarrow> r
           | None \<Rightarrow> Aborted [''Invalid input'']))"

text \<open>\<open>.optional()\<close>: \<open>undefined\<close> is valid without consulting the inner schema.\<close>

definition z_optional :: "(jsval \<Rightarrow> 'a parsed) \<Rightarrow> jsval \<Rightarrow> 'a option parsed" where
  "z_optional inner v =
     (if v = JUndefined then Parsed None [] else map_parsed Some (inner v))"

text \<open>
  \<open>.refine(check, msg)\<close>: when the inner parse did not abort, the check runs on its
  value (valid or dirty) and a failing check adds the message.
\<close>

definition z_refine :: "('a \<Rightarrow> bool) \<Rightarrow> string \<Rightarrow> (jsval \<Rightarrow> 'a parsed) \<Rightarrow> jsval \<Rightarrow> 'a parsed" where
  "z_refine check msg inner v =
     (case inner v of
        Aborted is \<Rightarrow> Aborted is
      | Parsed x is \<Rightarrow> Parsed x (is @ (if check x then [] else [msg])))"

text \<open>\<open>.transform(f)\<close>: \<open>f\<close> runs only on a valid inner result.\<close>

definition z_transform :: "('a \<Rightarrow> 'b) \<Rightarrow> (jsval \<Rightarrow> 'a parsed) \<Rightarrow> jsval \<Rightarrow> 'b parsed" where
  "z_transform f inner v =
     (case inner v of
        Parsed x is \<Rightarrow> (if is = [] then Parsed (f x) [] else Aborted is)
      | Aborted is \<Rightarrow> Aborted is)"

text \<open>
  \<open>z.array(element).min(n, msg)\<close>: a non-array aborts; the length check and every
  element are evaluated; one aborted element aborts the array.
\<close>

definition z_array_min ::
  "(jsval \<Rightarrow> 'a parsed) \<Rightarrow> nat \<Rightarrow> string \<Rightarrow> jsval \<Rightarrow> 'a list parsed" where
  "z_array_min element n msg v =
     (case v of
        JArr xs \<Rightarrow>
          (let too_small = (if length xs < n then [msg] else []);
               results = map element xs;
               all_issues = too_small @ concat (map issues results)
           in case those (map parsed_value results) of
                None \<Rightarrow> Aborted all_issues
              | Some ys \<Rightarrow> Parsed ys all_issues)
      | _ \<Rightarrow> Aborted [invalid_type ''array'' v])"

text \<open>A schema accepts an input when the parse is valid (\<open>safeParse(...).success\<close>).\<close>

definition accepts :: "(jsval \<Rightarrow> 'a parsed) \<Rightarrow> jsval \<Rightarrow> bool" where
  "accepts schema v = is_valid (schema v)"

section \<open>The fields of \<open>formSchema\<close>\<close>

subsection \<open>fullName\<close>

text \<open>
  The class \<open>\s\<close> of a JavaScript regular expression: the white space and line
  terminator code points.
\<close>

definition is_whitespace :: "code_unit \<Rightarrow> bool" where
  "is_whitespace c =
     (c \<in> {0x9, 0xA, 0xB, 0xC, 0xD, 0x20, 0xA0, 0x1680, 0x2028, 0x2029, 0x202F, 0x205F,
            0x3000, 0xFEFF}
      \<or> (0x2000 \<le> c \<and> c \<le> 0x200A))"

text \<open>The character class \<open>[a-zA-Z\s'-]\<close>.\<close>

definition name_class :: "code_unit \<Rightarrow> bool" where
  "name_class c =
     ((0x61 \<le> c \<and> c \<le> 0x7A) \<or> (0x41 \<le> c \<and> c \<le> 0x5A) \<or> is_whitespace c
      \<or> c = 0x27 \<or> c = 0x2D)"

text \<open>\<open>/^[a-zA-Z\s'-]+$/.test(s)\<close>: one or more code units, all of the class.\<close>

definition name_regex :: "jstring \<Rightarrow> bool" where
  "name_regex s = (s \<noteq> [] \<and> list_all name_class s)"

definition fullName_schema :: "jsval \<Rightarrow> jstring parsed" where
  "fullName_schema =
     z_string
       [min_len 2 ''Full name must be at least 2 characters.'',
        max_len 80 ''Full name cannot exceed 80 characters.'',
        regex name_regex
          ''Full name must only contain letters, spaces, hyphens, or apostrophes.'']"

subsection \<open>companyName\<close>

definition companyName_schema :: "jsval \<Rightarrow> jstring parsed" where
  "companyName_schema =
     z_string
       [min_len 2 ''Company name must be at least 2 characters.'',
        max_len 100 ''Company name cannot exceed 100 characters.'']"

subsection \<open>email\<close>

text \<open>
  \<open>z.string().email(msg).min(1, msg)\<close>. The pattern behind \<open>.email\<close> belongs to the zod
  library; it is the parameter \<open>email_regex\<close>.
\<close>

definition email_schema :: "(jstring \<Rightarrow> bool) \<Rightarrow> jsval \<Rightarrow> jstring parsed" where
  "email_schema email_regex =
     z_string
       [regex email_regex ''Please enter a valid email address.'',
        min_len 1 ''Email is required.'']"

subsection \<open>services\<close>

definition services_schema :: "jsval \<Rightarrow> jstring list parsed" where
  "services_schema = z_array_min (z_string []) 1 ''Please select at least one service.''"

definition SERVICE_OPTIONS :: "jstring list" where
  "SERVICE_OPTIONS = [jstr ''UI/UX'', jstr ''Branding'', jstr ''Web Dev'', jstr ''Mobile App'']"

subsection \<open>budgetUsd\<close>

text \<open>The values of \<open>z.union([z.number().int(...), z.literal("")])\<close>.\<close>

datatype num_or_empty = Num number | EmptyString

text \<open>
  \<open>ToNumber\<close> on the values that reach the refinement: \<open>undefined\<close> becomes NaN and
  the empty string becomes \<open>0\<close>.
\<close>

fun to_number :: "num_or_empty option \<Rightarrow> number" where
  "to_number None = NaN"
| "to_number (Some (Num n)) = n"
| "to_number (Some EmptyString) = Finite 0"

text \<open>\<open>(val) => val === "" || (val >= 100 && val <= 1000000)\<close>\<close>

definition budget_refinement :: "num_or_empty option \<Rightarrow> bool" where
  "budget_refinement val =
     (val = Some EmptyString
      \<or> (num_ge (to_number val) (Finite 100) \<and> num_le (to_number val) (Finite 1000000)))"

text \<open>\<open>(val) => (val === "" ? undefined : Number(val))\<close>\<close>

definition budget_transform :: "num_or_empty option \<Rightarrow> number option" where
  "budget_transform val = (if val = Some EmptyString then None else Some (to_number val))"

definition budgetUsd_schema :: "jsval \<Rightarrow> number option parsed" where
  "budgetUsd_schema =
     z_transform budget_transform
       (z_refine budget_refinement ''Budget must be between 100 and 1,000,000 USD.''
          (z_optional
             (z_union
                [\<lambda>v. map_parsed Num (z_number_int ''Budget must be an integer.'' v),
                 \<lambda>v. map_parsed (\<lambda>u. EmptyString) (z_literal_empty v)])))"

subsection \<open>acceptTerms\<close>

definition acceptTerms_schema :: "jsval \<Rightarrow> bool parsed" where
  "acceptTerms_schema =
     z_refine (\<lambda>val. val) ''You must accept the terms and conditions.'' z_boolean"

section \<open>Time values and the \<open>Date\<close> built-ins\<close>

text \<open>
  A time value is a number of milliseconds since the epoch, UTC. The day and year
  arithmetic is that of the ECMAScript specification.
\<close>

definition msPerDay :: int where
  "msPerDay = 86400000"

definition Day :: "int \<Rightarrow> int" where
  "Day t = t div msPerDay"

definition DaysInYear :: "int \<Rightarrow> int" where
  "DaysInYear y =
     (if y mod 4 \<noteq> 0 then 365
      else if y mod 100 \<noteq> 0 then 366
      else if y mod 400 \<noteq> 0 then 365
      else 366)"

definition DayFromYear :: "int \<Rightarrow> int" where
  "DayFromYear y =
     365 * (y - 1970) + (y - 1969) div 4 - (y - 1901) div 100 + (y - 1601) div 400"

lemma div_step:
  fixes n k :: int
  assumes "1 < k"
  shows "(n + 1) div k = n div k + (if (n + 1) mod k = 0 then 1 else 0)"
proof -
  define q r where "q = n div k" and "r = n mod k"
  have n: "n = q * k + r" by (simp add: q_def r_def)
  have r: "0 \<le> r" "r < k" using assms by (simp_all add: r_def)
  show ?thesis
  proof (cases "r = k - 1")
    case True
    then have "n + 1 = (q + 1) * k" using n by (simp add: algebra_simps)
    then have "(n + 1) div k = q + 1" "(n + 1) mod k = 0" using assms by simp_all
    then show ?thesis by (simp add: q_def)
  next
    case False
    then have lt: "0 \<le> r + 1" "r + 1 < k" using r by linarith+
    have e: "n + 1 = (r + 1) + q * k" using n by linarith
    have d: "(n + 1) div k = q" unfolding e using lt by (simp add: div_pos_pos_trivial)
    have m: "(n + 1) mod k = r + 1" unfolding e using lt by (simp add: mod_pos_pos_trivial)
    from m r have "(n + 1) mod k \<noteq> 0" by linarith
    with d show ?thesis by (simp add: q_def)
  qed
qed

lemma mod_shift:
  fixes y :: int
  shows "(y - 1968) mod 4 = y mod 4"
    and "(y - 1900) mod 100 = y mod 100"
    and "(y - 1600) mod 400 = y mod 400"
proof -
  have "y - 1968 = y + (- 492) * 4" "y - 1900 = y + (- 19) * 100" "y - 1600 = y + (- 4) * 400"
    by simp_all
  then show "(y - 1968) mod 4 = y mod 4"
    and "(y - 1900) mod 100 = y mod 100"
    and "(y - 1600) mod 400 = y mod 400"
    by (simp_all only: mod_mult_self1)
qed

lemma leap_cases:
  fixes y :: int
  shows "y mod 100 = 0 \<Longrightarrow> y mod 4 = 0"
    and "y mod 400 = 0 \<Longrightarrow> y mod 100 = 0"
proof -
  have a: "y mod 100 mod 4 = y mod 4" by (rule mod_mod_cancel) simp
  have b: "y mod 400 mod 100 = y mod 100" by (rule mod_mod_cancel) simp
  show "y mod 100 = 0 \<Longrightarrow> y mod 4 = 0" using a by simp
  show "y mod 400 = 0 \<Longrightarrow> y mod 100 = 0" using b by simp
qed

lemma DayFromYear_Suc: "DayFromYear (y + 1) = DayFromYear y + DaysInYear y"
proof -
  have a: "(y + 1 - 1969) div 4 = (y - 1969) div 4 + (if y mod 4 = 0 then 1 else 0)"
    using div_step [of 4 "y - 1969"] mod_shift(1) [of y] by (simp add: algebra_simps)
  have b: "(y + 1 - 1901) div 100 = (y - 1901) div 100 + (if y mod 100 = 0 then 1 else 0)"
    using div_step [of 100 "y - 1901"] mod_shift(2) [of y] by (simp add: algebra_simps)
  have c: "(y + 1 - 1601) div 400 = (y - 1601) div 400 + (if y mod 400 = 0 then 1 else 0)"
    using div_step [of 400 "y - 1601"] mod_shift(3) [of y] by (simp add: algebra_simps)
  show ?thesis
    unfolding DayFromYear_def DaysInYear_def a b c
    using leap_cases [of y] by (auto simp: algebra_simps)
qed

lemma DayFromYear_less: "DayFromYear (y - 1) < DayFromYear y"
  using DayFromYear_Suc [of "y - 1"] by (simp add: DaysInYear_def split: if_splits)

text \<open>
  \<open>YearFromTime(t)\<close> is the largest year whose first day is not after \<open>t\<close>. It is
  found from an estimate by stepping down, then up.
\<close>

function year_down :: "int \<Rightarrow> int \<Rightarrow> int" where
  "year_down d y = (if d < DayFromYear y then year_down d (y - 1) else y)"
  by pat_completeness auto
termination
proof (relation "measure (\<lambda>(d, y). nat (DayFromYear y - d))")
  show "wf (measure (\<lambda>(d, y). nat (DayFromYear y - d)))" by simp
next
  fix d y :: int
  assume "d < DayFromYear y"
  then show "((d, y - 1), (d, y)) \<in> measure (\<lambda>(d, y). nat (DayFromYear y - d))"
    using DayFromYear_less [of y] by simp
qed

function year_up :: "int \<Rightarrow> int \<Rightarrow> int" where
  "year_up d y = (if DayFromYear (y + 1) \<le> d then year_up d (y + 1) else y)"
  by pat_completeness auto
termination
proof (relation "measure (\<lambda>(d, y). nat (d + 1 - DayFromYear (y + 1)))")
  show "wf (measure (\<lambda>(d, y). nat (d + 1 - DayFromYear (y + 1))))" by simp
next
  fix d y :: int
  assume "DayFromYear (y + 1) \<le> d"
  then show "((d, y + 1), (d, y)) \<in> measure (\<lambda>(d, y). nat (d + 1 - DayFromYear (y + 1)))"
    using DayFromYear_less [of "y + 1 + 1"] by (simp add: add.commute)
qed

declare year_down.simps [simp del] year_up.simps [simp del]

definition YearFromDay :: "int \<Rightarrow> int" where
  "YearFromDay d = year_up d (year_down d (1970 + d div 365))"

definition YearFromTime :: "int \<Rightarrow> int" where
  "YearFromTime t = YearFromDay (Day t)"

definition leap :: "int \<Rightarrow> int" where
  "leap y = (if DaysInYear y = 366 then 1 else 0)"

definition DayWithinYear :: "int \<Rightarrow> int" where
  "DayWithinYear t = Day t - DayFromYear (YearFromTime t)"

text \<open>The day within the year on which month \<open>m\<close> (0 to 11) starts.\<close>

definition month_start :: "int \<Rightarrow> int \<Rightarrow> int" where
  "month_start l m =
     (if m = 0 then 0 else if m = 1 then 31 else if m = 2 then 59 + l
      else if m = 3 then 90 + l else if m = 4 then 120 + l else if m = 5 then 151 + l
      else if m = 6 then 181 + l else if m = 7 then 212 + l else if m = 8 then 243 + l
      else if m = 9 then 273 + l else if m = 10 then 304 + l else 334 + l)"

definition MonthFromTime :: "int \<Rightarrow> int" where
  "MonthFromTime t =
     (let d = DayWithinYear t; l = leap (YearFromTime t) in
      if d < 31 then 0 else if d < 59 + l then 1 else if d < 90 + l then 2
      else if d < 120 + l then 3 else if d < 151 + l then 4 else if d < 181 + l then 5
      else if d < 212 + l then 6 else if d < 243 + l then 7 else if d < 273 + l then 8
      else if d < 304 + l then 9 else if d < 334 + l then 10 else 11)"

definition DateFromTime :: "int \<Rightarrow> int" where
  "DateFromTime t =
     DayWithinYear t - month_start (leap (YearFromTime t)) (MonthFromTime t) + 1"

definition MakeTime :: "int \<Rightarrow> int \<Rightarrow> int \<Rightarrow> int \<Rightarrow> int" where
  "MakeTime h m s ms = h * 3600000 + m * 60000 + s * 1000 + ms"

definition MakeDay :: "int \<Rightarrow> int \<Rightarrow> int \<Rightarrow> int" where
  "MakeDay year month date =
     (let ym = year + month div 12; mn = month mod 12
      in DayFromYear ym + month_start (leap ym) mn + date - 1)"

definition MakeDate :: "int \<Rightarrow> int \<Rightarrow> int" where
  "MakeDate day time = day * msPerDay + time"

text \<open>\<open>TimeClip\<close>: a time value beyond the range of \<open>Date\<close> is NaN (\<open>None\<close>).\<close>

definition TimeClip :: "int \<Rightarrow> int option" where
  "TimeClip t = (if \<bar>t\<bar> > 8640000000000000 then None else Some t)"

subsection \<open>\<open>new Date(string)\<close>\<close>

definition digit_value :: "code_unit \<Rightarrow> nat option" where
  "digit_value c = (if 0x30 \<le> c \<and> c \<le> 0x39 then Some (unat c - 48) else None)"

fun digits_acc :: "nat \<Rightarrow> jstring \<Rightarrow> nat option" where
  "digits_acc n [] = Some n"
| "digits_acc n (c # cs) =
     (case digit_value c of None \<Rightarrow> None | Some d \<Rightarrow> digits_acc (10 * n + d) cs)"

definition decimal_value :: "jstring \<Rightarrow> nat option" where
  "decimal_value s = digits_acc 0 s"

text \<open>
  The date-only forms \<open>YYYY-MM-DD\<close> and \<open>+YYYYYY-MM-DD\<close>, \<open>-YYYYYY-MM-DD\<close> of the
  ECMAScript date-time string format, read as (year, month, day); the year
  \<open>-000000\<close> is not part of the format.
\<close>

definition parse_date_only :: "jstring \<Rightarrow> (int \<times> int \<times> int) option" where
  "parse_date_only s =
     (if length s = 10 \<and> s ! 4 = 0x2D \<and> s ! 7 = 0x2D then
        (case (decimal_value (take 4 s), decimal_value (take 2 (drop 5 s)),
               decimal_value (drop 8 s)) of
           (Some y, Some m, Some d) \<Rightarrow> Some (int y, int m, int d)
         | _ \<Rightarrow> None)
      else if length s = 13 \<and> (s ! 0 = 0x2B \<or> s ! 0 = 0x2D) \<and> s ! 7 = 0x2D \<and> s ! 10 = 0x2D then
        (case (decimal_value (take 6 (drop 1 s)), decimal_value (take 2 (drop 8 s)),
               decimal_value (drop 11 s)) of
           (Some y, Some m, Some d) \<Rightarrow>
             (if s ! 0 = 0x2D then (if y = 0 then None else Some (- int y, int m, int d))
              else Some (int y, int m, int d))
         | _ \<Rightarrow> None)
      else None)"

definition DaysInMonth :: "int \<Rightarrow> int \<Rightarrow> int" where
  "DaysInMonth y m =
     (if m = 2 then 28 + leap y else if m = 4 \<or> m = 6 \<or> m = 9 \<or> m = 11 then 30 else 31)"

text \<open>
  \<open>Date.parse\<close>, with \<open>None\<close> for NaN. A date-only string with legal month and day is
  the midnight that starts this day in UTC. Every other string (the date-time forms,
  and whatever else an engine accepts or refuses) is left to the parameter
  \<open>other_formats\<close>.
\<close>

definition Date_parse :: "(jstring \<Rightarrow> int option) \<Rightarrow> jstring \<Rightarrow> int option" where
  "Date_parse other_formats s =
     (case parse_date_only s of
        Some (y, m, d) \<Rightarrow>
          (if 1 \<le> m \<and> m \<le> 12 \<and> 1 \<le> d \<and> d \<le> DaysInMonth y m
           then TimeClip (MakeDate (MakeDay y (m - 1) d) (MakeTime 0 0 0 0))
           else other_formats s)
      | None \<Rightarrow> other_formats s)"

subsection \<open>\<open>new Date().setHours(0, 0, 0, 0)\<close>\<close>

text \<open>
  The local time zone is a fixed offset \<open>tza\<close> in milliseconds, positive east of
  Greenwich (a zone without daylight saving). \<open>setHours(0, 0, 0, 0)\<close> on the date
  of time value \<open>now\<close> gives the time value of the local midnight that starts today.
\<close>

definition LocalTime :: "int \<Rightarrow> int \<Rightarrow> int" where
  "LocalTime tza t = t + tza"

definition UTC :: "int \<Rightarrow> int \<Rightarrow> int" where
  "UTC tza t = t - tza"

definition setHours_0 :: "int \<Rightarrow> int \<Rightarrow> int option" where
  "setHours_0 tza now =
     TimeClip (UTC tza (MakeDate (Day (LocalTime tza now)) (MakeTime 0 0 0 0)))"

subsection \<open>\<open>toISOString().split("T")[0]\<close>\<close>

definition digit_unit :: "nat \<Rightarrow> code_unit" where
  "digit_unit d = of_nat (48 + d)"

text \<open>The \<open>w\<close> decimal digits of \<open>n\<close>, most significant first.\<close>

definition fixed_digits :: "nat \<Rightarrow> nat \<Rightarrow> jstring" where
  "fixed_digits w n = map (\<lambda>i. digit_unit ((n div 10 ^ i) mod 10)) (rev [0..<w])"

text \<open>
  The year of \<open>toISOString\<close>: four digits from 0 to 9999, otherwise a sign and six
  digits.
\<close>

definition year_digits :: "int \<Rightarrow> jstring" where
  "year_digits y =
     (if 0 \<le> y \<and> y \<le> 9999 then fixed_digits 4 (nat y)
      else (if y < 0 then 0x2D else 0x2B) # fixed_digits 6 (nat \<bar>y\<bar>))"

definition iso_date :: "int \<Rightarrow> jstring" where
  "iso_date t =
     year_digits (YearFromTime t) @ [0x2D] @ fixed_digits 2 (nat (MonthFromTime t + 1))
       @ [0x2D] @ fixed_digits 2 (nat (DateFromTime t))"

definition iso_time :: "int \<Rightarrow> jstring" where
  "iso_time t =
     fixed_digits 2 (nat ((t div 3600000) mod 24)) @ [0x3A]
       @ fixed_digits 2 (nat ((t div 60000) mod 60)) @ [0x3A]
       @ fixed_digits 2 (nat ((t div 1000) mod 60)) @ [0x2E]
       @ fixed_digits 3 (nat (t mod 1000))"

definition toISOString :: "int \<Rightarrow> jstring" where
  "toISOString t = iso_date t @ [0x54] @ iso_time t @ [0x5A]"

text \<open>\<open>s.split(sep)[0]\<close> for a one-unit separator: the part before its first occurrence.\<close>

definition split_head :: "code_unit \<Rightarrow> jstring \<Rightarrow> jstring" where
  "split_head sep s = takeWhile (\<lambda>c. c \<noteq> sep) s"

section \<open>The environment of the page\<close>

text \<open>
  What the page reads from outside: the configured endpoint
  (\<open>process.env.NEXT_PUBLIC_ONBOARD_URL\<close>, \<open>None\<close> when unset), the offset of the local
  time zone, and three library functions that are not part of the repository: the date
  formats an engine accepts beyond the date-only form, the pattern of zod's \<open>.email\<close>,
  and \<open>decodeURIComponent\<close> (\<open>None\<close> when it throws).
\<close>

record env =
  NEXT_PUBLIC_ONBOARD_URL :: "string option"
  tza :: int
  other_formats :: "jstring \<Rightarrow> int option"
  email_regex :: "jstring \<Rightarrow> bool"
  decodeURIComponent :: "jstring \<Rightarrow> jstring option"

subsection \<open>projectStartDate\<close>

text \<open>
  \<open>(date) => new Date(date) >= new Date(new Date().setHours(0, 0, 0, 0))\<close>, evaluated
  when the clock reads \<open>now\<close>. A comparison with an invalid date is false.
\<close>

definition start_date_refinement :: "env \<Rightarrow> int \<Rightarrow> jstring \<Rightarrow> bool" where
  "start_date_refinement E now date =
     (case Date_parse (other_formats E) date of
        None \<Rightarrow> False
      | Some chosen \<Rightarrow>
          (case setHours_0 (tza E) now of
             None \<Rightarrow> False
           | Some today \<Rightarrow> chosen \<ge> today))"

definition projectStartDate_schema :: "env \<Rightarrow> int \<Rightarrow> jsval \<Rightarrow> jstring parsed" where
  "projectStartDate_schema E now =
     z_refine (start_date_refinement E now) ''Project start date must be today or later.''
       (z_string [min_len 1 ''Project start date is required.''])"

section \<open>\<open>formSchema\<close>\<close>

text \<open>
  The candidate is an object read by key; a key that is absent reads as \<open>undefined\<close>.
  The parsed data has one field per key of the schema.
\<close>

type_synonym candidate = "string \<Rightarrow> jsval"

record form_data =
  fullName :: jstring
  email :: jstring
  companyName :: jstring
  services :: "jstring list"
  budgetUsd :: "number option"
  projectStartDate :: jstring
  acceptTerms :: bool

text \<open>The result of \<open>safeParse\<close>: the data, or the issues as (field, message).\<close>

datatype 'a safe_parse = Success 'a | Failure "(string \<times> string) list"

definition at_path :: "string \<Rightarrow> 'a parsed \<Rightarrow> (string \<times> string) list" where
  "at_path key r = map (Pair key) (issues r)"

text \<open>
  \<open>z.object\<close> parses every key and collects the issues of all of them; it succeeds when
  there is none.
\<close>

definition formSchema :: "env \<Rightarrow> int \<Rightarrow> candidate \<Rightarrow> form_data safe_parse" where
  "formSchema E now input =
     (let r1 = fullName_schema (input ''fullName'');
          r2 = email_schema (email_regex E) (input ''email'');
          r3 = companyName_schema (input ''companyName'');
          r4 = services_schema (input ''services'');
          r5 = budgetUsd_schema (input ''budgetUsd'');
          r6 = projectStartDate_schema E now (input ''projectStartDate'');
          r7 = acceptTerms_schema (input ''acceptTerms'');
          all_issues =
            at_path ''fullName'' r1 @ at_path ''email'' r2 @ at_path ''companyName'' r3
              @ at_path ''services'' r4 @ at_path ''budgetUsd'' r5
              @ at_path ''projectStartDate'' r6 @ at_path ''acceptTerms'' r7
      in if all_issues \<noteq> [] then Failure all_issues
         else
           (case (parsed_value r1, parsed_value r2, parsed_value r3, parsed_value r4,
                  parsed_value r5, parsed_value r6, parsed_value r7) of
              (Some a, Some b, Some c, Some d, Some e, Some f, Some g) \<Rightarrow>
                Success \<lparr>fullName = a, email = b, companyName = c, services = d,
                         budgetUsd = e, projectStartDate = f, acceptTerms = g\<rparr>
            | _ \<Rightarrow> Failure all_issues))"

section \<open>The component \<open>App\<close>\<close>

text \<open>
  A call of \<open>fetch\<close>, and how it settles: with a response (any status) or with a
  rejection. The body of a request or response is the list of the members of its JSON
  object.
\<close>

type_synonym json_object = "(string \<times> jsval) list"

record request =
  url :: string
  http_method :: string
  headers :: "(string \<times> string) list"
  body :: json_object

record response =
  status :: nat
  response_body :: json_object

datatype fetch_outcome = Fulfilled response | Rejected

text \<open>\<open>response.ok\<close>\<close>

definition ok :: "response \<Rightarrow> bool" where
  "ok r = (200 \<le> status r \<and> status r \<le> 299)"

text \<open>
  The state of the component: the four \<open>useState\<close> cells, the values and errors held
  by \<open>useForm\<close>, and two lists kept for the network: every request \<open>fetch\<close> was called
  with, and the payloads of the runs of \<open>onSubmit\<close> that wait for their \<open>fetch\<close>.
\<close>

record app_state =
  isSubmitting :: bool
  isSubmitted :: bool
  submissionError :: "string option"
  submittedData :: "form_data option"
  formValues :: candidate
  errors :: "(string \<times> string) list"
  fetches :: "request list"
  awaiting :: "form_data list"

definition defaultValues :: candidate where
  "defaultValues =
     (\<lambda>key. JUndefined)
       (''fullName'' := JStr [],
        ''email'' := JStr [],
        ''companyName'' := JStr [],
        ''services'' := JArr [],
        ''budgetUsd'' := JStr [],
        ''projectStartDate'' := JStr [],
        ''acceptTerms'' := JBool False)"

definition initial :: app_state where
  "initial =
     \<lparr>isSubmitting = False, isSubmitted = False, submissionError = None,
      submittedData = None, formValues = defaultValues, errors = [], fetches = [],
      awaiting = []\<rparr>"

text \<open>
  \<open>reset()\<close> of react-hook-form: the values go back to \<open>defaultValues\<close>. The budget
  input is registered with \<open>valueAsNumber\<close>, so once the page has rendered the library
  reads its empty default as NaN; that state is the one after the event
  \<open>EditBudget NaN\<close> below.
\<close>

definition reset :: "app_state \<Rightarrow> app_state" where
  "reset st = st\<lparr>formValues := defaultValues, errors := []\<rparr>"

subsection \<open>The pre-fill effect\<close>

text \<open>
  The effect that runs once after mounting, with the \<open>service\<close> parameter of the query
  string (\<open>None\<close> when there is no query string or no such parameter). The result is
  \<open>None\<close> when \<open>decodeURIComponent\<close> throws: the effect fails and the page is not shown.
\<close>

definition prefill :: "env \<Rightarrow> jstring option \<Rightarrow> app_state \<Rightarrow> app_state option" where
  "prefill E serviceParam st =
     (case serviceParam of
        None \<Rightarrow> Some st
      | Some p \<Rightarrow>
          (if p = [] then Some st
           else
             (case decodeURIComponent E p of
                None \<Rightarrow> None
              | Some decoded \<Rightarrow>
                  (if decoded \<in> set SERVICE_OPTIONS
                   then Some (st\<lparr>formValues :=
                                   (formValues st)(''services'' := JArr [JStr decoded])\<rparr>)
                   else Some st))))"

subsection \<open>\<open>ServiceCheckbox\<close>\<close>

text \<open>
  \<open>onChange\<close> of the checkbox with this label: the label is appended when the box gets
  checked and filtered out when it gets unchecked.
\<close>

definition toggle_service :: "jstring \<Rightarrow> bool \<Rightarrow> app_state \<Rightarrow> app_state" where
  "toggle_service label checked st =
     (case formValues st ''services'' of
        JArr xs \<Rightarrow>
          st\<lparr>formValues :=
               (formValues st)
                 (''services'' :=
                    JArr (if checked then xs @ [JStr label]
                          else filter (\<lambda>service. service \<noteq> JStr label) xs))\<rparr>
      | _ \<Rightarrow> st)"

subsection \<open>\<open>onSubmit\<close>\<close>

definition config_message :: string where
  "config_message =
     ''API URL is not configured. Please set the NEXT_PUBLIC_ONBOARD_URL environment variable.''"

definition network_message :: string where
  "network_message = ''Network Error: Could not connect to the API.''"

text \<open>The decimal digits of a number, as a template literal prints it.\<close>

fun show_nat :: "nat \<Rightarrow> string" where
  "show_nat n =
     (if n < 10 then [char_of (48 + n)]
      else show_nat (n div 10) @ [char_of (48 + n mod 10)])"

declare show_nat.simps [simp del]

definition api_error_message :: "response \<Rightarrow> string" where
  "api_error_message r = ''API Error: '' @ show_nat (status r) @ '' - An error occurred.''"

text \<open>
  The payload: the data with \<open>budgetUsd\<close> kept when truthy and \<open>projectStartDate\<close>
  replaced by the date part of \<open>toISOString\<close>. \<open>toISOString\<close> throws on an invalid date
  (\<open>None\<close>).
\<close>

definition make_payload :: "env \<Rightarrow> form_data \<Rightarrow> form_data option" where
  "make_payload E data =
     (case Date_parse (other_formats E) (projectStartDate data) of
        None \<Rightarrow> None
      | Some t \<Rightarrow>
          Some (data
            \<lparr>budgetUsd :=
               (case budgetUsd data of
                  None \<Rightarrow> None
                | Some n \<Rightarrow> if truthy_number n then Some n else None),
             projectStartDate := split_head 0x54 (toISOString t)\<rparr>))"

text \<open>
  \<open>JSON.stringify\<close> of the payload, as the members of the object it writes: a member
  whose value is \<open>undefined\<close> is left out, and a number that is not finite is written
  \<open>null\<close>.
\<close>

definition json_number :: "number \<Rightarrow> jsval" where
  "json_number n = (case n of Finite x \<Rightarrow> JNum n | _ \<Rightarrow> JNull)"

definition JSON_stringify :: "form_data \<Rightarrow> json_object" where
  "JSON_stringify p =
     filter (\<lambda>(key, v). v \<noteq> JUndefined)
       [(''fullName'', JStr (fullName p)),
        (''email'', JStr (email p)),
        (''companyName'', JStr (companyName p)),
        (''services'', JArr (map JStr (services p))),
        (''budgetUsd'', (case budgetUsd p of None \<Rightarrow> JUndefined | Some n \<Rightarrow> json_number n)),
        (''projectStartDate'', JStr (projectStartDate p)),
        (''acceptTerms'', JBool (acceptTerms p))]"

definition post :: "string \<Rightarrow> form_data \<Rightarrow> request" where
  "post apiUrl payload =
     \<lparr>url = apiUrl, http_method = ''POST'',
      headers = [(''Content-Type'', ''application/json'')],
      body = JSON_stringify payload\<rparr>"

text \<open>
  \<open>onSubmit\<close> up to \<open>await fetch(...)\<close>. The result is the state and, when the run is
  suspended at the \<open>await\<close>, the payload it holds; otherwise the run has ended.
\<close>

definition onSubmit_start :: "env \<Rightarrow> form_data \<Rightarrow> app_state \<Rightarrow> app_state \<times> form_data option" where
  "onSubmit_start E data st =
     (let st1 = st\<lparr>isSubmitting := True, submissionError := None, isSubmitted := False\<rparr>;
          not_configured =
            (st1\<lparr>submissionError := Some config_message, isSubmitting := False\<rparr>, None)
      in case NEXT_PUBLIC_ONBOARD_URL E of
           None \<Rightarrow> not_configured
         | Some apiUrl \<Rightarrow>
             (if apiUrl = [] then not_configured
              else
                (case make_payload E data of
                   None \<Rightarrow>
                     (st1\<lparr>submissionError := Some network_message, isSubmitting := False\<rparr>,
                      None)
                 | Some payload \<Rightarrow>
                     (st1\<lparr>fetches := fetches st1 @ [post apiUrl payload]\<rparr>, Some payload))))"

text \<open>\<open>onSubmit\<close> from the moment its \<open>fetch\<close> settles.\<close>

definition onSubmit_resume :: "fetch_outcome \<Rightarrow> form_data \<Rightarrow> app_state \<Rightarrow> app_state" where
  "onSubmit_resume outcome payload st =
     (let st1 =
        (case outcome of
           Fulfilled r \<Rightarrow>
             (if ok r then reset (st\<lparr>isSubmitted := True, submittedData := Some payload\<rparr>)
              else st\<lparr>submissionError := Some (api_error_message r)\<rparr>)
         | Rejected \<Rightarrow> st\<lparr>submissionError := Some network_message\<rparr>)
      in st1\<lparr>isSubmitting := False\<rparr>)"

text \<open>One whole run of \<open>onSubmit\<close>, its \<open>fetch\<close> settling with \<open>outcome\<close>.\<close>

definition onSubmit :: "env \<Rightarrow> fetch_outcome \<Rightarrow> form_data \<Rightarrow> app_state \<Rightarrow> app_state" where
  "onSubmit E outcome data st =
     (case onSubmit_start E data st of
        (st', None) \<Rightarrow> st'
      | (st', Some payload) \<Rightarrow> onSubmit_resume outcome payload st')"

subsection \<open>The events of the page\<close>

text \<open>
  \<open>handleSubmit(onSubmit)\<close>: the values are validated; \<open>onSubmit\<close> runs with the parsed
  data when validation succeeds, and the errors are shown otherwise.
\<close>

definition handleSubmit :: "env \<Rightarrow> int \<Rightarrow> app_state \<Rightarrow> app_state" where
  "handleSubmit E now st =
     (case formSchema E now (formValues st) of
        Failure errs \<Rightarrow> st\<lparr>errors := errs\<rparr>
      | Success data \<Rightarrow>
          (case onSubmit_start E data (st\<lparr>errors := []\<rparr>) of
             (st', None) \<Rightarrow> st'
           | (st', Some payload) \<Rightarrow> st'\<lparr>awaiting := awaiting st' @ [payload]\<rparr>))"

text \<open>
  What can happen on the page. The submit button and the registered inputs carry
  \<open>disabled={isSubmitting}\<close>; the service checkboxes do not. A text input holds a
  string, the budget input (\<open>valueAsNumber\<close>) a number, the terms checkbox a boolean.
\<close>

datatype event =
    Submit int
  | Settle fetch_outcome
  | EditText string jstring
  | EditBudget number
  | EditTerms bool
  | ToggleService jstring bool

definition text_inputs :: "string list" where
  "text_inputs = [''fullName'', ''email'', ''companyName'', ''projectStartDate'']"

fun step :: "env \<Rightarrow> app_state \<Rightarrow> event \<Rightarrow> app_state option" where
  "step E st (Submit now) =
     (if isSubmitting st then None else Some (handleSubmit E now st))"
| "step E st (Settle outcome) =
     (case awaiting st of
        [] \<Rightarrow> None
      | payload # rest \<Rightarrow> Some (onSubmit_resume outcome payload (st\<lparr>awaiting := rest\<rparr>)))"
| "step E st (EditText name s) =
     (if isSubmitting st \<or> name \<notin> set text_inputs then None
      else Some (st\<lparr>formValues := (formValues st)(name := JStr s)\<rparr>))"
| "step E st (EditBudget n) =
     (if isSubmitting st then None
      else Some (st\<lparr>formValues := (formValues st)(''budgetUsd'' := JNum n)\<rparr>))"
| "step E st (EditTerms b) =
     (if isSubmitting st then None
      else Some (st\<lparr>formValues := (formValues st)(''acceptTerms'' := JBool b)\<rparr>))"
| "step E st (ToggleService label checked) =
     (if label \<in> set SERVICE_OPTIONS then Some (toggle_service label checked st) else None)"

text \<open>The states of the page: after mounting, and after any event that can happen.\<close>

inductive reachable :: "env \<Rightarrow> app_state \<Rightarrow> bool" for E :: env where
  mounted: "prefill E serviceParam initial = Some st \<Longrightarrow> reachable E st"
| after: "reachable E st \<Longrightarrow> step E st ev = Some st' \<Longrightarrow> reachable E st'"

section \<open>Auxiliary notions for the properties\<close>

definition is_string :: "jsval \<Rightarrow> bool" where
  "is_string v = (case v of JStr s \<Rightarrow> True | _ \<Rightarrow> False)"

text \<open>The services held by the form are an array of values of \<open>SERVICE_OPTIONS\<close>.\<close>

definition services_from_options :: "app_state \<Rightarrow> bool" where
  "services_from_options st =
     (case formValues st ''services'' of
        JArr vs \<Rightarrow> list_all (\<lambda>v. v \<in> set (map JStr SERVICE_OPTIONS)) vs
      | _ \<Rightarrow> False)"

text \<open>
  The character set of a full name in the words of the specification: a letter, the
  space, the hyphen or the apostrophe. Letters are taken as the ASCII letters.
\<close>

definition spec_name_char :: "code_unit \<Rightarrow> bool" where
  "spec_name_char c =
     ((0x61 \<le> c \<and> c \<le> 0x7A) \<or> (0x41 \<le> c \<and> c \<le> 0x5A) \<or> c = 0x20 \<or> c = 0x2D \<or> c = 0x27)"

definition spec_fullName :: "jstring \<Rightarrow> bool" where
  "spec_fullName s = (2 \<le> length s \<and> length s \<le> 80 \<and> list_all spec_name_char s)"

text \<open>
  Reading a decimal numeral: the number that a non-empty string of digits denotes.
\<close>

definition digit_char :: "char \<Rightarrow> nat option" where
  "digit_char c =
     (if 48 \<le> (of_char c :: nat) \<and> (of_char c :: nat) \<le> 57 then Some (of_char c - 48) else None)"

fun read_digits :: "nat \<Rightarrow> string \<Rightarrow> nat option" where
  "read_digits n [] = Some n"
| "read_digits n (c # cs) =
     (case digit_char c of None \<Rightarrow> None | Some d \<Rightarrow> read_digits (10 * n + d) cs)"

definition read_nat :: "string \<Rightarrow> nat option" where
  "read_nat s = (if s = [] then None else read_digits 0 s)"

text \<open>An environment for the concrete instances below.\<close>

definition example_env :: env where
  "example_env =
     \<lparr>NEXT_PUBLIC_ONBOARD_URL = Some ''https://example.com/api/onboard'',
      tza = 0,
      other_formats = (\<lambda>s. None),
      email_regex = (\<lambda>s. True),
      decodeURIComponent = Some\<rparr>"

definition example_data :: form_data where
  "example_data =
     \<lparr>fullName = jstr ''Jane O'Brien'', email = jstr ''jane@example.com'',
      companyName = jstr ''Acme'', services = [jstr ''Branding''],
      budgetUsd = Some (Finite 5000), projectStartDate = jstr ''2026-11-03'',
      acceptTerms = True\<rparr>"

definition example_values :: candidate where
  "example_values =
     defaultValues
       (''fullName'' := JStr (jstr ''Jane O'Brien''),
        ''email'' := JStr (jstr ''jane@example.com''),
        ''companyName'' := JStr (jstr ''Acme''),
        ''services'' := JArr [JStr (jstr ''Branding'')],
        ''budgetUsd'' := JNum (Finite 5000),
        ''projectStartDate'' := JStr (jstr ''2026-11-03''),
        ''acceptTerms'' := JBool True)"

text \<open>The form filled in with the example values, and the state after its submission.\<close>

definition example_filled :: app_state where
  "example_filled = initial\<lparr>formValues := example_values\<rparr>"

definition example_inflight :: app_state where
  "example_inflight =
     example_filled
       \<lparr>isSubmitting := True,
        fetches := [post ''https://example.com/api/onboard'' example_data],
        awaiting := [example_data]\<rparr>"

text \<open>A string of the form \<open>YYYY-MM-DD\<close>: four, two and two digits between hyphens.\<close>

definition is_digit :: "code_unit \<Rightarrow> bool" where
  "is_digit c = (0x30 \<le> c \<and> c \<le> 0x39)"

definition calendar_date_string :: "jstring \<Rightarrow> bool" where
  "calendar_date_string s =
     (length s = 10 \<and> s ! 4 = 0x2D \<and> s ! 7 = 0x2D
      \<and> list_all is_digit (take 4 s @ take 2 (drop 5 s) @ drop 8 s))"

text \<open>The example environment in a zone five hours west of Greenwich.\<close>

definition west_env :: env where
  "west_env = example_env\<lparr>tza := - 18000000\<rparr>"

text \<open>\<open>!apiUrl\<close> is false: the endpoint is set and not the empty string.\<close>

definition configured :: "env \<Rightarrow> bool" where
  "configured E = (case NEXT_PUBLIC_ONBOARD_URL E of None \<Rightarrow> False | Some u \<Rightarrow> u \<noteq> [])"

text \<open>The error banner is rendered: \<open>submissionError\<close> is truthy.\<close>

definition error_shown :: "app_state \<Rightarrow> bool" where
  "error_shown st = (case submissionError st of None \<Rightarrow> False | Some m \<Rightarrow> m \<noteq> [])"

text \<open>
  The invariant of the submit lifecycle: the submitting flag is set exactly while one
  \<open>fetch\<close> is awaited, there is at most one, both indicators are clear while it is
  awaited, and they are never set together.
\<close>

definition lifecycle_invariant :: "app_state \<Rightarrow> bool" where
  "lifecycle_invariant st =
     ((isSubmitting st \<longleftrightarrow> awaiting st \<noteq> [])
      \<and> length (awaiting st) \<le> 1
      \<and> (if isSubmitting st then \<not> isSubmitted st \<and> submissionError st = None
         else \<not> (isSubmitted st \<and> error_shown st)))"

section \<open>Validation of the full name\<close>

lemma fullName_accepts_iff:
  "accepts fullName_schema (JStr s) \<longleftrightarrow>
     2 \<le> length s \<and> length s \<le> 80 \<and> list_all name_class s"
  by (auto simp: accepts_def fullName_schema_def z_string_def min_len_def max_len_def
      regex_def name_regex_def)

lemma fullName_not_string: "\<not> is_string v \<Longrightarrow> \<not> accepts fullName_schema v"
  by (cases v) (simp_all add: accepts_def fullName_schema_def z_string_def is_string_def)

text \<open>
  C7 (as amended). A string is accepted as full name exactly when its length, in UTF-16
  code units, is between 2 and 80 and every code unit is an ASCII letter, a white-space
  character of the class \<open>\s\<close>, a hyphen or an apostrophe. \<open>Jane O'Brien\<close> and
  \<open>Anne-Marie\<close> are accepted; \<open>J\<close> and \<open>John123\<close> are rejected.
\<close>

theorem fullName_validation:
  "(accepts fullName_schema (JStr s) \<longleftrightarrow>
      2 \<le> length s \<and> length s \<le> 80 \<and> list_all name_class s)
   \<and> accepts fullName_schema (JStr (jstr ''Jane O'Brien''))
   \<and> accepts fullName_schema (JStr (jstr ''Anne-Marie''))
   \<and> \<not> accepts fullName_schema (JStr (jstr ''J''))
   \<and> \<not> accepts fullName_schema (JStr (jstr ''John123''))"
  by (simp add: fullName_accepts_iff jstr_def name_class_def is_whitespace_def)

theorem fullName_validation_witness:
  "accepts fullName_schema (JStr [0x41, 0x6C, 0x20, 0x42])
   \<and> length [0x41, 0x6C, 0x20, 0x42 :: code_unit] = 4
   \<and> list_all name_class [0x41, 0x6C, 0x20, 0x42]"
  using fullName_validation [of "[0x41, 0x6C, 0x20, 0x42]"]
  by (simp add: name_class_def is_whitespace_def)

text \<open>
  The claim as the specification words it fails: the name \<open>J<tab>D\<close> is accepted, and a
  tab is neither a letter nor a space, a hyphen or an apostrophe.
\<close>

theorem fullName_tab_counterexample:
  "accepts fullName_schema (JStr [0x4A, 0x9, 0x44]) \<and> \<not> spec_fullName [0x4A, 0x9, 0x44]"
  by (simp add: fullName_accepts_iff name_class_def is_whitespace_def spec_fullName_def
      spec_name_char_def)

section \<open>Validation of the services\<close>

lemma those_parsed_strings:
  "those (map parsed_value (map (z_string []) xs)) =
     (if list_all is_string xs then Some (map (\<lambda>v. case v of JStr s \<Rightarrow> s | _ \<Rightarrow> []) xs)
      else None)"
  by (induction xs) (auto simp: z_string_def is_string_def split: jsval.splits)

lemma issues_z_string_nil: "is_string x \<Longrightarrow> issues (z_string [] x) = []"
  by (auto simp: z_string_def is_string_def split: jsval.splits)

lemma services_accepts_iff:
  "accepts services_schema (JArr xs) \<longleftrightarrow> xs \<noteq> [] \<and> list_all is_string xs"
proof (cases "list_all is_string xs")
  case True
  then have iss: "concat (map issues (map (z_string []) xs)) = []"
    by (induction xs) (simp_all add: issues_z_string_nil)
  show ?thesis
    unfolding accepts_def services_schema_def z_array_min_def Let_def jsval.case
      those_parsed_strings iss
    using True by simp
next
  case False
  then show ?thesis
    unfolding accepts_def services_schema_def z_array_min_def Let_def jsval.case
      those_parsed_strings
    by simp
qed

subsection \<open>The services the page builds\<close>

lemma services_frame:
  "formValues st' ''services'' = formValues st ''services'' \<Longrightarrow>
   services_from_options st \<Longrightarrow> services_from_options st'"
  by (simp add: services_from_options_def)

lemma services_initial: "services_from_options initial"
  by (simp add: services_from_options_def initial_def defaultValues_def)

lemma services_prefill:
  "services_from_options st \<Longrightarrow> prefill E p st = Some st' \<Longrightarrow> services_from_options st'"
  by (auto simp: prefill_def services_from_options_def split: option.splits if_splits)

lemma services_toggle:
  "services_from_options st \<Longrightarrow> l \<in> set SERVICE_OPTIONS \<Longrightarrow>
   services_from_options (toggle_service l c st)"
  by (auto simp: toggle_service_def services_from_options_def list_all_iff split: jsval.splits)

lemma formValues_onSubmit_start:
  "onSubmit_start E d st = (st', p) \<Longrightarrow> formValues st' = formValues st"
  by (auto simp: onSubmit_start_def Let_def split: option.splits if_splits)

lemma formValues_handleSubmit: "formValues (handleSubmit E now st) = formValues st"
  by (auto simp: handleSubmit_def split: safe_parse.splits prod.splits option.splits
      dest: formValues_onSubmit_start)

lemma services_resume:
  "services_from_options st \<Longrightarrow> services_from_options (onSubmit_resume out p st)"
  by (auto simp: onSubmit_resume_def reset_def services_from_options_def defaultValues_def
      Let_def split: fetch_outcome.splits)

lemma services_step:
  assumes "services_from_options st" and "step E st ev = Some st'"
  shows "services_from_options st'"
proof (cases ev)
  case (Submit now)
  then show ?thesis
    using assms formValues_handleSubmit [of E now st]
    by (auto split: if_splits intro: services_frame)
next
  case (Settle out)
  then obtain p rest where
    "awaiting st = p # rest" "st' = onSubmit_resume out p (st\<lparr>awaiting := rest\<rparr>)"
    using assms(2) by (auto split: list.splits)
  moreover have "services_from_options (st\<lparr>awaiting := rest\<rparr>)"
    using assms(1) by (simp add: services_from_options_def)
  ultimately show ?thesis using services_resume by blast
next
  case (EditText name s)
  then show ?thesis
    using assms by (auto simp: services_from_options_def text_inputs_def split: if_splits)
next
  case (EditBudget n)
  then show ?thesis
    using assms by (auto simp: services_from_options_def split: if_splits)
next
  case (EditTerms b)
  then show ?thesis
    using assms by (auto simp: services_from_options_def split: if_splits)
next
  case (ToggleService l c)
  then show ?thesis
    using assms services_toggle by (auto split: if_splits)
qed

lemma reachable_services: "reachable E st \<Longrightarrow> services_from_options st"
  by (induction rule: reachable.induct)
    (auto intro: services_prefill services_initial services_step)

text \<open>
  C1 (as amended). Validation accepts the services field exactly when it is a list of
  strings with at least one value; it does not compare the values with the option set.
  The lists the page itself builds (from the empty default, by the guarded pre-fill and
  by the checkboxes) hold values of the option set only.
\<close>

theorem services_validation:
  "(accepts services_schema (JArr vs) \<longleftrightarrow> vs \<noteq> [] \<and> list_all is_string vs)
   \<and> (reachable E st \<longrightarrow> services_from_options st)"
  using services_accepts_iff reachable_services by blast

theorem services_validation_witness:
  "accepts services_schema (JArr [JStr (jstr ''Branding'')])
   \<and> reachable example_env (toggle_service (jstr ''Branding'') True initial)
   \<and> services_from_options (toggle_service (jstr ''Branding'') True initial)"
proof -
  have r0: "reachable example_env initial"
    by (rule reachable.mounted [of _ None]) (simp add: prefill_def)
  have s: "step example_env initial (ToggleService (jstr ''Branding'') True)
             = Some (toggle_service (jstr ''Branding'') True initial)"
    by (simp add: SERVICE_OPTIONS_def jstr_def)
  have r: "reachable example_env (toggle_service (jstr ''Branding'') True initial)"
    using r0 s by (rule reachable.after)
  show ?thesis
    using r
      services_validation [of "[JStr (jstr ''Branding'')]" example_env
        "toggle_service (jstr ''Branding'') True initial"]
    by (simp add: is_string_def)
qed

text \<open>
  The claim as stated fails: a list with a string outside the option set is accepted.
\<close>

theorem services_outside_options_counterexample:
  "accepts services_schema (JArr [JStr (jstr ''Consulting'')])
   \<and> jstr ''Consulting'' \<notin> set SERVICE_OPTIONS"
  by (simp add: services_accepts_iff is_string_def SERVICE_OPTIONS_def jstr_def)

section \<open>Validation of the budget\<close>

lemma budget_number_iff:
  "accepts budgetUsd_schema (JNum n) \<longleftrightarrow>
     isInteger n \<and> num_ge n (Finite 100) \<and> num_le n (Finite 1000000)"
  by (cases n)
    (auto simp: accepts_def budgetUsd_schema_def z_transform_def z_refine_def z_optional_def
      budget_refinement_def z_union_def z_number_int_def z_literal_empty_def num_ge_def
      split: if_splits)

lemma budget_empty_string: "budgetUsd_schema (JStr []) = Parsed None []"
  by (simp add: budgetUsd_schema_def z_transform_def z_refine_def z_optional_def
      budget_refinement_def z_union_def z_number_int_def z_literal_empty_def
      budget_transform_def invalid_type_def)

lemma budget_boundaries:
  "accepts budgetUsd_schema (JStr [])"
  "\<not> accepts budgetUsd_schema (JNum (Finite 99))"
  "accepts budgetUsd_schema (JNum (Finite 100))"
  "accepts budgetUsd_schema (JNum (Finite 1000000))"
  "\<not> accepts budgetUsd_schema (JNum (Finite 1000001))"
  by (simp_all add: budget_number_iff num_ge_def)
    (simp add: accepts_def budget_empty_string)

lemma budget_not_integer: "\<not> accepts budgetUsd_schema (JNum (Finite (201 / 2)))"
proof -
  have "\<lfloor>201 / 2 :: rat\<rfloor> = 100" by linarith
  then show ?thesis by (simp add: budget_number_iff)
qed

text \<open>
  C5. The claim holds for the empty string, for 99, 100, 1000000 and 1000001 and for
  the integer range (lemmas \<open>budget_boundaries\<close> and \<open>budget_number_iff\<close>), but an absent
  budget is rejected: \<open>undefined\<close> passes \<open>.optional()\<close> and then fails the refinement,
  whose comparison with \<open>undefined\<close> is false.
\<close>

theorem budget_absent_rejected:
  "budgetUsd_schema JUndefined = Aborted [''Budget must be between 100 and 1,000,000 USD.'']
   \<and> \<not> accepts budgetUsd_schema JUndefined"
  by (simp add: accepts_def budgetUsd_schema_def z_transform_def z_refine_def z_optional_def
      budget_refinement_def num_ge_def)

section \<open>The calendar arithmetic\<close>

lemma Day_whole: "Day (d * msPerDay) = d"
  by (simp add: Day_def msPerDay_def)

lemma year_down_le: "DayFromYear (year_down d y) \<le> d"
  by (induction d y rule: year_down.induct) (simp add: year_down.simps)

lemma year_up_spec:
  "DayFromYear y \<le> d \<Longrightarrow> DayFromYear (year_up d y) \<le> d \<and> d < DayFromYear (year_up d y + 1)"
  by (induction d y rule: year_up.induct) (simp add: year_up.simps)

lemma YearFromDay_spec:
  "DayFromYear (YearFromDay d) \<le> d \<and> d < DayFromYear (YearFromDay d + 1)"
  unfolding YearFromDay_def by (rule year_up_spec) (rule year_down_le)

lemma DayFromYear_mono: "y \<le> z \<Longrightarrow> DayFromYear y \<le> DayFromYear z"
proof (induction z rule: int_ge_induct)
  case base
  then show ?case by simp
next
  case (step i)
  then show ?case using DayFromYear_less [of "i + 1"] by simp
qed

lemma YearFromDay_unique:
  assumes "DayFromYear y \<le> d" "d < DayFromYear (y + 1)"
  shows "YearFromDay d = y"
proof -
  let ?z = "YearFromDay d"
  have z: "DayFromYear ?z \<le> d" "d < DayFromYear (?z + 1)" using YearFromDay_spec by auto
  have "\<not> y + 1 \<le> ?z" using DayFromYear_mono [of "y + 1" ?z] assms z by linarith
  moreover have "\<not> ?z + 1 \<le> y" using DayFromYear_mono [of "?z + 1" y] assms z by linarith
  ultimately show ?thesis by linarith
qed

lemma DaysInYear_leap: "DaysInYear y = 365 + leap y"
  by (simp add: leap_def DaysInYear_def)

lemma leap_01: "leap y = 0 \<or> leap y = 1"
  by (simp add: leap_def)

lemma DayWithinYear_bounds:
  "0 \<le> DayWithinYear t" "DayWithinYear t < 365 + leap (YearFromTime t)"
  using YearFromDay_spec [of "Day t"] DayFromYear_Suc [of "YearFromTime t"]
  by (simp_all add: DayWithinYear_def YearFromTime_def DaysInYear_leap)

lemma MonthFromTime_bounds: "0 \<le> MonthFromTime t" "MonthFromTime t \<le> 11"
  by (simp_all add: MonthFromTime_def Let_def)

lemma DateFromTime_bounds: "1 \<le> DateFromTime t" "DateFromTime t \<le> 31"
  using DayWithinYear_bounds [of t] leap_01 [of "YearFromTime t"]
  by (auto simp: DateFromTime_def MonthFromTime_def month_start_def Let_def)

lemma month_cases:
  fixes m :: int
  assumes "0 \<le> m" "m \<le> 11"
  obtains "m = 0" | "m = 1" | "m = 2" | "m = 3" | "m = 4" | "m = 5" | "m = 6" | "m = 7"
    | "m = 8" | "m = 9" | "m = 10" | "m = 11"
proof -
  have "m = 0 \<or> m = 1 \<or> m = 2 \<or> m = 3 \<or> m = 4 \<or> m = 5 \<or> m = 6 \<or> m = 7
      \<or> m = 8 \<or> m = 9 \<or> m = 10 \<or> m = 11"
    using assms by arith
  then show thesis using that by blast
qed

lemma MakeDay_in_year:
  assumes "0 \<le> m" "m \<le> 11" "1 \<le> d" "d \<le> DaysInMonth y (m + 1)"
  shows "MakeDay y m d = DayFromYear y + (month_start (leap y) m + d - 1)"
    and "0 \<le> month_start (leap y) m + d - 1"
    and "month_start (leap y) m + d - 1 < 365 + leap y"
proof -
  have dm: "m div 12 = 0" "m mod 12 = m" using assms(1,2) by simp_all
  show "MakeDay y m d = DayFromYear y + (month_start (leap y) m + d - 1)"
    by (simp add: MakeDay_def dm Let_def)
  show "0 \<le> month_start (leap y) m + d - 1"
    using assms leap_01 [of y] by (auto simp: month_start_def)
  show "month_start (leap y) m + d - 1 < 365 + leap y"
    using assms(1,2)
  proof (cases m rule: month_cases)
  qed (use assms(3,4) leap_01 [of y] in \<open>auto simp: month_start_def DaysInMonth_def\<close>)
qed

lemma calendar_roundtrip:
  assumes "0 \<le> m" "m \<le> 11" "1 \<le> d" "d \<le> DaysInMonth y (m + 1)"
  defines "t \<equiv> MakeDate (MakeDay y m d) (MakeTime 0 0 0 0)"
  shows "YearFromTime t = y" "MonthFromTime t = m" "DateFromTime t = d"
proof -
  note md = MakeDay_in_year [OF assms(1-4)]
  have day: "Day t = MakeDay y m d"
    by (simp add: t_def MakeDate_def MakeTime_def Day_whole)
  show y: "YearFromTime t = y"
    unfolding YearFromTime_def day
    by (rule YearFromDay_unique) (use md DayFromYear_Suc [of y] in \<open>simp_all add: DaysInYear_leap\<close>)
  have w: "DayWithinYear t = month_start (leap y) m + d - 1"
    by (simp add: DayWithinYear_def day y md(1))
  show mo: "MonthFromTime t = m"
    using assms(1,2)
  proof (cases m rule: month_cases)
  qed (use assms(3,4) leap_01 [of y] in \<open>auto simp: MonthFromTime_def Let_def w y month_start_def DaysInMonth_def\<close>)
  show "DateFromTime t = d"
    by (simp add: DateFromTime_def w y mo)
qed

lemma unat_digit_unit: "d < 10 \<Longrightarrow> unat (digit_unit d) = 48 + d"
proof -
  assume d: "d < 10"
  have "unat (of_nat (48 + d) :: 16 word) = (48 + d) mod 2 ^ LENGTH(16)"
    by (simp only: unat_of_nat)
  also have "\<dots> = 48 + d" using d by simp
  finally show ?thesis by (simp only: digit_unit_def)
qed

lemma digit_unit_value: "d < 10 \<Longrightarrow> digit_value (digit_unit d) = Some d"
  using unat_digit_unit [of d]
  by (simp add: digit_value_def word_le_nat_alt)

lemma digit_unit_not: "d < 10 \<Longrightarrow> digit_unit d \<noteq> 0x54"
  using unat_digit_unit [of d] by auto

lemma fixed_digits_Suc:
  "fixed_digits (Suc w) n = digit_unit ((n div 10 ^ w) mod 10) # fixed_digits w n"
  by (simp add: fixed_digits_def)

lemma length_fixed_digits: "length (fixed_digits w n) = w"
  by (simp add: fixed_digits_def)

lemma digits_acc_fixed:
  "digits_acc a (fixed_digits w n) = Some (a * 10 ^ w + n mod 10 ^ w)"
proof (induction w arbitrary: a)
  case 0
  then show ?case by (simp add: fixed_digits_def)
next
  case (Suc w)
  have "n mod (10 ^ w * 10) = 10 ^ w * (n div 10 ^ w mod 10) + n mod 10 ^ w"
    by (rule mod_mult2_eq)
  then show ?case
    by (simp add: fixed_digits_Suc digit_unit_value Suc.IH algebra_simps)
qed

lemma decimal_fixed: "n < 10 ^ w \<Longrightarrow> decimal_value (fixed_digits w n) = Some n"
  by (simp add: decimal_value_def digits_acc_fixed)

lemma fixed_digits_no_T: "0x54 \<notin> set (fixed_digits w n)"
  using digit_unit_not by (auto simp: fixed_digits_def)

section \<open>The date part of \<open>toISOString\<close>\<close>

lemma iso_date_no_T: "0x54 \<notin> set (iso_date t)"
  by (simp add: iso_date_def year_digits_def fixed_digits_no_T)

lemma split_toISOString: "split_head 0x54 (toISOString t) = iso_date t"
proof -
  have "\<forall>c \<in> set (iso_date t). c \<noteq> 0x54" using iso_date_no_T [of t] by auto
  then show ?thesis
    by (simp add: split_head_def toISOString_def takeWhile_append2)
qed

lemma parse_printed_date:
  assumes "y < 10000" "m < 100" "d < 100"
  shows "parse_date_only (fixed_digits 4 y @ [0x2D] @ fixed_digits 2 m @ [0x2D] @ fixed_digits 2 d)
           = Some (int y, int m, int d)"
proof -
  have "decimal_value (fixed_digits 4 y) = Some y" "decimal_value (fixed_digits 2 m) = Some m"
    "decimal_value (fixed_digits 2 d) = Some d"
    using assms by (simp_all add: decimal_fixed)
  then show ?thesis
    by (simp add: parse_date_only_def length_fixed_digits nth_append)
qed

lemma iso_date_calendar:
  assumes "0 \<le> YearFromTime t" "YearFromTime t \<le> 9999"
  shows "length (iso_date t) = 10"
    and "parse_date_only (iso_date t) = Some (YearFromTime t, MonthFromTime t + 1, DateFromTime t)"
proof -
  let ?y = "nat (YearFromTime t)" and ?m = "nat (MonthFromTime t + 1)" and ?d = "nat (DateFromTime t)"
  have e: "iso_date t = fixed_digits 4 ?y @ [0x2D] @ fixed_digits 2 ?m @ [0x2D] @ fixed_digits 2 ?d"
    using assms by (simp add: iso_date_def year_digits_def)
  show "length (iso_date t) = 10" by (simp add: e length_fixed_digits)
  have "?y < 10000" "?m < 100" "?d < 100"
    using assms MonthFromTime_bounds [of t] DateFromTime_bounds [of t] by linarith+
  then have "parse_date_only (iso_date t) = Some (int ?y, int ?m, int ?d)"
    unfolding e by (rule parse_printed_date)
  then show "parse_date_only (iso_date t) = Some (YearFromTime t, MonthFromTime t + 1, DateFromTime t)"
    using assms MonthFromTime_bounds [of t] DateFromTime_bounds [of t] by simp
qed

lemma iso_date_expanded:
  assumes "9999 < YearFromTime t"
  shows "length (iso_date t) = 13" "hd (iso_date t) = 0x2B"
  using assms by (simp_all add: iso_date_def year_digits_def length_fixed_digits)

section \<open>The submit lifecycle\<close>

lemma onSubmit_start_ended:
  assumes "onSubmit_start E data st = (st', None)"
  shows "st' = st\<lparr>isSubmitting := False, isSubmitted := False,
                   submissionError := Some (if configured E then network_message else config_message)\<rparr>"
    and "configured E \<Longrightarrow> make_payload E data = None"
  using assms
  by (auto simp: onSubmit_start_def configured_def Let_def split: option.splits if_splits)

lemma onSubmit_start_suspended:
  assumes "onSubmit_start E data st = (st', Some payload)"
  shows "\<exists>apiUrl. NEXT_PUBLIC_ONBOARD_URL E = Some apiUrl \<and> apiUrl \<noteq> []
           \<and> st' = st\<lparr>isSubmitting := True, isSubmitted := False, submissionError := None,
                       fetches := fetches st @ [post apiUrl payload]\<rparr>"
    and "make_payload E data = Some payload"
  using assms
  by (auto simp: onSubmit_start_def Let_def split: option.splits if_splits)


lemma messages_nonempty: "config_message \<noteq> []" "network_message \<noteq> []" "api_error_message r \<noteq> []"
  by (simp_all add: config_message_def network_message_def api_error_message_def)

lemma inv_initial: "prefill E p initial = Some st \<Longrightarrow> lifecycle_invariant st"
  by (auto simp: lifecycle_invariant_def prefill_def initial_def error_shown_def
      split: option.splits if_splits)

lemma inv_handleSubmit:
  assumes "lifecycle_invariant st" "\<not> isSubmitting st"
  shows "lifecycle_invariant (handleSubmit E now st)"
proof (cases "formSchema E now (formValues st)")
  case (Failure errs)
  then show ?thesis using assms by (simp add: handleSubmit_def lifecycle_invariant_def error_shown_def)
next
  case (Success data)
  obtain st' p where s: "onSubmit_start E data (st\<lparr>errors := []\<rparr>) = (st', p)"
    by (cases "onSubmit_start E data (st\<lparr>errors := []\<rparr>)")
  show ?thesis
  proof (cases p)
    case None
    then show ?thesis
      using onSubmit_start_ended(1) [of E data "st\<lparr>errors := []\<rparr>" st'] s Success assms
      by (simp add: handleSubmit_def lifecycle_invariant_def error_shown_def)
  next
    case (Some payload)
    then show ?thesis
      using onSubmit_start_suspended(1) [of E data "st\<lparr>errors := []\<rparr>" st' payload] s Success assms
      by (auto simp: handleSubmit_def lifecycle_invariant_def error_shown_def)
  qed
qed

lemma inv_resume:
  assumes "lifecycle_invariant st" "awaiting st = payload # rest"
  shows "lifecycle_invariant (onSubmit_resume outcome payload (st\<lparr>awaiting := rest\<rparr>))"
  using assms
  by (cases outcome)
    (auto simp: lifecycle_invariant_def onSubmit_resume_def reset_def error_shown_def Let_def
      messages_nonempty split: if_splits)

lemma inv_step:
  assumes "lifecycle_invariant st" "step E st ev = Some st'"
  shows "lifecycle_invariant st'"
proof (cases ev)
  case (Submit now)
  then show ?thesis using assms inv_handleSubmit by (auto split: if_splits)
next
  case (Settle outcome)
  then show ?thesis using assms inv_resume by (auto split: list.splits)
next
  case (EditText name s)
  then show ?thesis using assms by (auto simp: lifecycle_invariant_def error_shown_def split: if_splits)
next
  case (EditBudget n)
  then show ?thesis using assms by (auto simp: lifecycle_invariant_def error_shown_def split: if_splits)
next
  case (EditTerms b)
  then show ?thesis using assms by (auto simp: lifecycle_invariant_def error_shown_def split: if_splits)
next
  case (ToggleService l c)
  then show ?thesis using assms
    by (auto simp: lifecycle_invariant_def error_shown_def toggle_service_def split: if_splits jsval.splits)
qed

lemma reachable_invariant: "reachable E st \<Longrightarrow> lifecycle_invariant st"
  by (induction rule: reachable.induct) (auto intro: inv_initial inv_step)

section \<open>What a successful validation tells\<close>

lemma parsed_clean: "issues r = [] \<Longrightarrow> parsed_value r = Some a \<Longrightarrow> r = Parsed a []"
  by (cases r) auto

lemma at_path_nil: "at_path key r = [] \<longleftrightarrow> issues r = []"
  by (simp add: at_path_def)

lemma formSchema_Success:
  assumes "formSchema E now input = Success data"
  shows "fullName_schema (input ''fullName'') = Parsed (fullName data) []"
    and "email_schema (email_regex E) (input ''email'') = Parsed (email data) []"
    and "companyName_schema (input ''companyName'') = Parsed (companyName data) []"
    and "services_schema (input ''services'') = Parsed (services data) []"
    and "budgetUsd_schema (input ''budgetUsd'') = Parsed (budgetUsd data) []"
    and "projectStartDate_schema E now (input ''projectStartDate'') = Parsed (projectStartDate data) []"
    and "acceptTerms_schema (input ''acceptTerms'') = Parsed (acceptTerms data) []"
  using assms
  by (auto simp: formSchema_def Let_def at_path_nil split: if_splits option.splits
      intro!: parsed_clean)

lemma budget_parsed:
  assumes "budgetUsd_schema v = Parsed b []"
  shows "b = None \<or> (\<exists>x. b = Some (Finite x) \<and> 100 \<le> x \<and> x \<le> 1000000 \<and> of_int \<lfloor>x\<rfloor> = x)"
proof (cases v)
  case (JNum n)
  then show ?thesis using assms
    by (cases n)
      (auto simp: budgetUsd_schema_def z_transform_def z_refine_def z_optional_def
        budget_refinement_def z_union_def z_number_int_def z_literal_empty_def num_ge_def
        budget_transform_def split: if_splits)
next
  case (JStr s)
  then show ?thesis using assms
    by (auto simp: budgetUsd_schema_def z_transform_def z_refine_def z_optional_def
        budget_refinement_def z_union_def z_number_int_def z_literal_empty_def num_ge_def
        budget_transform_def invalid_type_def split: if_splits)
qed (use assms in \<open>auto simp: budgetUsd_schema_def z_transform_def z_refine_def z_optional_def
        budget_refinement_def z_union_def z_number_int_def z_literal_empty_def num_ge_def
        budget_transform_def invalid_type_def split: if_splits\<close>)

lemma start_date_parsed:
  assumes "projectStartDate_schema E now v = Parsed s []"
  shows "v = JStr s" and "s \<noteq> []" and "start_date_refinement E now s"
  using assms
  by (cases v; auto simp: projectStartDate_schema_def z_refine_def z_string_def min_len_def
      split: if_splits)+

lemma start_date_refinement_iff:
  "start_date_refinement E now s \<longleftrightarrow>
     (\<exists>chosen today. Date_parse (other_formats E) s = Some chosen
        \<and> setHours_0 (tza E) now = Some today \<and> today \<le> chosen)"
  by (auto simp: start_date_refinement_def split: option.splits)

lemma acceptTerms_parsed: "acceptTerms_schema v = Parsed g [] \<Longrightarrow> g \<and> v = JBool True"
  by (cases v) (auto simp: acceptTerms_schema_def z_refine_def z_boolean_def split: if_splits)

lemma validated_payload:
  assumes "formSchema E now input = Success data"
  obtains t where "Date_parse (other_formats E) (projectStartDate data) = Some t"
    and "make_payload E data = Some (data\<lparr>projectStartDate := iso_date t\<rparr>)"
proof -
  from formSchema_Success(6) [OF assms] have "start_date_refinement E now (projectStartDate data)"
    by (rule start_date_parsed)
  then obtain t where t: "Date_parse (other_formats E) (projectStartDate data) = Some t"
    by (auto simp: start_date_refinement_iff)
  from budget_parsed [OF formSchema_Success(5) [OF assms]]
  have "(case budgetUsd data of None \<Rightarrow> None | Some n \<Rightarrow> if truthy_number n then Some n else None)
          = budgetUsd data"
    by auto
  then have "make_payload E data = Some (data\<lparr>projectStartDate := iso_date t\<rparr>)"
    by (simp add: make_payload_def t split_toISOString)
  with t show thesis by (rule that)
qed

section \<open>A worked example\<close>

lemma example_parse:
  "Date_parse (\<lambda>s. None) (jstr ''2026-11-03'') = Some (MakeDate (MakeDay 2026 10 3) (MakeTime 0 0 0 0))"
  by (simp add: Date_parse_def parse_date_only_def jstr_def decimal_value_def digit_value_def
      DaysInMonth_def TimeClip_def MakeDate_def MakeDay_def MakeTime_def DayFromYear_def
      month_start_def leap_def DaysInYear_def msPerDay_def Let_def)

lemma example_time: "MakeDate (MakeDay 2026 10 3) (MakeTime 0 0 0 0) = 1793664000000"
  by (simp add: MakeDate_def MakeDay_def MakeTime_def DayFromYear_def
      month_start_def leap_def DaysInYear_def msPerDay_def Let_def)

lemma fixed_digits_4:
  "fixed_digits 4 n =
     [digit_unit (n div 1000 mod 10), digit_unit (n div 100 mod 10),
      digit_unit (n div 10 mod 10), digit_unit (n mod 10)]"
proof -
  have "rev [0..<4::nat] = [3, 2, 1, 0]" by code_simp
  then show ?thesis by (simp add: fixed_digits_def)
qed

lemma fixed_digits_2: "fixed_digits 2 n = [digit_unit (n div 10 mod 10), digit_unit (n mod 10)]"
proof -
  have "rev [0..<2::nat] = [1, 0]" by code_simp
  then show ?thesis by (simp add: fixed_digits_def)
qed

lemma fixed_digits_6:
  "fixed_digits 6 n =
     [digit_unit (n div 100000 mod 10), digit_unit (n div 10000 mod 10),
      digit_unit (n div 1000 mod 10), digit_unit (n div 100 mod 10),
      digit_unit (n div 10 mod 10), digit_unit (n mod 10)]"
proof -
  have "rev [0..<6::nat] = [5, 4, 3, 2, 1, 0]" by code_simp
  then show ?thesis by (simp add: fixed_digits_def)
qed

lemma example_iso: "iso_date (MakeDate (MakeDay 2026 10 3) (MakeTime 0 0 0 0)) = jstr ''2026-11-03''"
proof -
  have r: "YearFromTime (MakeDate (MakeDay 2026 10 3) (MakeTime 0 0 0 0)) = 2026"
    "MonthFromTime (MakeDate (MakeDay 2026 10 3) (MakeTime 0 0 0 0)) = 10"
    "DateFromTime (MakeDate (MakeDay 2026 10 3) (MakeTime 0 0 0 0)) = 3"
    using calendar_roundtrip [of 10 3 2026] by (simp_all add: DaysInMonth_def)
  show ?thesis
    by (simp add: iso_date_def r year_digits_def fixed_digits_4 fixed_digits_2 digit_unit_def jstr_def)
qed


lemma example_payload: "make_payload example_env example_data = Some example_data"
  by (simp add: make_payload_def example_env_def example_data_def example_parse
      split_toISOString example_iso)

lemma example_today: "setHours_0 0 1793725200000 = Some 1793664000000"
  by (simp add: setHours_0_def UTC_def LocalTime_def MakeDate_def MakeTime_def Day_def
      msPerDay_def TimeClip_def)

lemma example_start_date:
  "projectStartDate_schema example_env 1793725200000 (JStr (jstr ''2026-11-03''))
     = Parsed (jstr ''2026-11-03'') []"
  by (simp add: projectStartDate_schema_def z_refine_def z_string_def min_len_def
      start_date_refinement_def example_env_def example_parse example_time example_today)
    (simp add: jstr_def)

lemma example_schema_date:
  assumes "projectStartDate_schema example_env now (JStr s) = Parsed s []"
  shows "formSchema example_env now (example_values(''projectStartDate'' := JStr s))
           = Success (example_data\<lparr>projectStartDate := s\<rparr>)"
proof -
  have 1: "fullName_schema (JStr (jstr ''Jane O'Brien'')) = Parsed (jstr ''Jane O'Brien'') []"
    by (simp add: fullName_schema_def z_string_def min_len_def max_len_def regex_def
        name_regex_def name_class_def is_whitespace_def jstr_def)
  have 2: "email_schema (\<lambda>s. True) (JStr (jstr ''jane@example.com''))
             = Parsed (jstr ''jane@example.com'') []"
    by (simp add: email_schema_def z_string_def min_len_def regex_def jstr_def)
  have 3: "companyName_schema (JStr (jstr ''Acme'')) = Parsed (jstr ''Acme'') []"
    by (simp add: companyName_schema_def z_string_def min_len_def max_len_def jstr_def)
  have 4: "services_schema (JArr [JStr (jstr ''Branding'')]) = Parsed [jstr ''Branding''] []"
    by (simp add: services_schema_def z_array_min_def z_string_def)
  have 5: "budgetUsd_schema (JNum (Finite 5000)) = Parsed (Some (Finite 5000)) []"
    by (simp add: budgetUsd_schema_def z_transform_def z_refine_def z_optional_def
        budget_refinement_def z_union_def z_number_int_def z_literal_empty_def num_ge_def
        budget_transform_def)
  have 7: "acceptTerms_schema (JBool True) = Parsed True []"
    by (simp add: acceptTerms_schema_def z_refine_def z_boolean_def)
  have e: "email_regex example_env = (\<lambda>s. True)" by (simp add: example_env_def)
  show ?thesis
    unfolding formSchema_def
    by (simp add: example_values_def e 1 2 3 4 5 assms 7 at_path_def example_data_def)
qed

lemma example_schema:
  "formSchema example_env 1793725200000 example_values = Success example_data"
proof -
  have "example_values(''projectStartDate'' := JStr (jstr ''2026-11-03'')) = example_values"
    by (rule ext) (simp add: example_values_def)
  moreover have "example_data\<lparr>projectStartDate := jstr ''2026-11-03''\<rparr> = example_data"
    by (simp add: example_data_def)
  ultimately show ?thesis
    using example_schema_date [OF example_start_date] by simp
qed

lemma example_filled_reachable: "reachable example_env example_filled"
proof -
  let ?E = example_env
  let ?s1 = "initial\<lparr>formValues := defaultValues(''fullName'' := JStr (jstr ''Jane O'Brien''))\<rparr>"
  let ?s2 = "?s1\<lparr>formValues := (formValues ?s1)(''email'' := JStr (jstr ''jane@example.com''))\<rparr>"
  let ?s3 = "?s2\<lparr>formValues := (formValues ?s2)(''companyName'' := JStr (jstr ''Acme''))\<rparr>"
  let ?s4 = "toggle_service (jstr ''Branding'') True ?s3"
  let ?s5 = "?s4\<lparr>formValues := (formValues ?s4)(''budgetUsd'' := JNum (Finite 5000))\<rparr>"
  let ?s6 = "?s5\<lparr>formValues := (formValues ?s5)(''projectStartDate'' := JStr (jstr ''2026-11-03''))\<rparr>"
  let ?s7 = "?s6\<lparr>formValues := (formValues ?s6)(''acceptTerms'' := JBool True)\<rparr>"
  have r0: "reachable ?E initial"
    by (rule reachable.mounted [of _ None]) (simp add: prefill_def)
  have "step ?E initial (EditText ''fullName'' (jstr ''Jane O'Brien'')) = Some ?s1"
    by (simp add: initial_def text_inputs_def)
  then have r1: "reachable ?E ?s1" by (rule reachable.after [OF r0])
  have "step ?E ?s1 (EditText ''email'' (jstr ''jane@example.com'')) = Some ?s2"
    by (simp add: initial_def text_inputs_def)
  then have r2: "reachable ?E ?s2" by (rule reachable.after [OF r1])
  have "step ?E ?s2 (EditText ''companyName'' (jstr ''Acme'')) = Some ?s3"
    by (simp add: initial_def text_inputs_def)
  then have r3: "reachable ?E ?s3" by (rule reachable.after [OF r2])
  have "step ?E ?s3 (ToggleService (jstr ''Branding'') True) = Some ?s4"
    by (simp add: SERVICE_OPTIONS_def jstr_def)
  then have r4: "reachable ?E ?s4" by (rule reachable.after [OF r3])
  have "step ?E ?s4 (EditBudget (Finite 5000)) = Some ?s5"
    by (simp add: initial_def toggle_service_def defaultValues_def)
  then have r5: "reachable ?E ?s5" by (rule reachable.after [OF r4])
  have "step ?E ?s5 (EditText ''projectStartDate'' (jstr ''2026-11-03'')) = Some ?s6"
    by (simp add: initial_def toggle_service_def defaultValues_def text_inputs_def)
  then have r6: "reachable ?E ?s6" by (rule reachable.after [OF r5])
  have "step ?E ?s6 (EditTerms True) = Some ?s7"
    by (simp add: initial_def toggle_service_def defaultValues_def)
  then have r7: "reachable ?E ?s7" by (rule reachable.after [OF r6])
  have "?s7 = example_filled"
    by (simp add: example_filled_def example_values_def initial_def toggle_service_def
        defaultValues_def)
  with r7 show ?thesis by simp
qed

lemma example_start:
  "onSubmit_start example_env example_data st =
     (st\<lparr>isSubmitting := True, isSubmitted := False, submissionError := None,
         fetches := fetches st @ [post ''https://example.com/api/onboard'' example_data]\<rparr>,
      Some example_data)"
proof -
  have "NEXT_PUBLIC_ONBOARD_URL example_env = Some ''https://example.com/api/onboard''"
    by (simp add: example_env_def)
  then show ?thesis by (simp add: onSubmit_start_def example_payload Let_def)
qed

lemma example_submit:
  "step example_env example_filled (Submit 1793725200000) = Some example_inflight"
  by (simp add: handleSubmit_def example_filled_def example_schema example_start
      example_inflight_def initial_def)

lemma example_inflight_reachable: "reachable example_env example_inflight"
  using example_filled_reachable example_submit by (rule reachable.after)

section \<open>The outcomes of a submission\<close>





subsection \<open>The decimal numeral of a status\<close>

lemma digit_char_of: "d < 10 \<Longrightarrow> digit_char (char_of (48 + d)) = Some d"
  by (simp add: digit_char_def)

lemma read_digits_snoc:
  "read_digits a (xs @ [c]) =
     (case read_digits a xs of
        None \<Rightarrow> None
      | Some m \<Rightarrow> (case digit_char c of None \<Rightarrow> None | Some d \<Rightarrow> Some (10 * m + d)))"
  by (induction xs arbitrary: a) (auto split: option.splits)

lemma show_nat_nonempty: "show_nat n \<noteq> []"
  by (subst show_nat.simps) simp

lemma read_digits_show_nat: "read_digits 0 (show_nat n) = Some n"
proof (induction n rule: show_nat.induct)
  case (1 n)
  show ?case
  proof (cases "n < 10")
    case True
    then show ?thesis by (subst show_nat.simps) (simp add: digit_char_of)
  next
    case False
    then have "read_digits 0 (show_nat (n div 10)) = Some (n div 10)" by (rule "1.IH")
    then show ?thesis
      using False by (subst show_nat.simps) (simp add: read_digits_snoc digit_char_of)
  qed
qed

lemma read_nat_show_nat: "read_nat (show_nat n) = Some n"
  by (simp add: read_nat_def show_nat_nonempty read_digits_show_nat)

lemma show_nat_no_leading_zero: "0 < n \<Longrightarrow> hd (show_nat n) \<noteq> CHR ''0''"
proof (induction n rule: show_nat.induct)
  case (1 n)
  show ?case
  proof (cases "n < 10")
    case True
    have "char_of (48 + n) \<noteq> CHR ''0''"
    proof
      assume "char_of (48 + n) = CHR ''0''"
      then have "(of_char (char_of (48 + n)) :: nat) = of_char CHR ''0''" by (simp only:)
      then have "48 + n = 48" using True by simp
      then show False using "1.prems" by simp
    qed
    then show ?thesis using True by (subst show_nat.simps) simp
  next
    case False
    then have "hd (show_nat (n div 10)) \<noteq> CHR ''0''" by (intro "1.IH") simp_all
    then show ?thesis
      using False show_nat_nonempty [of "n div 10"] by (subst show_nat.simps) simp
  qed
qed

text \<open>
  C4. When the \<open>fetch\<close> of a submission is answered with a status outside 200 to 299,
  the state is failed with the message \<open>API Error: <status> - An error occurred.\<close>,
  in which the status stands as its decimal numeral (digits that read back as the status,
  without a leading zero); the success flag and the submitting flag are off and the
  form values are those before the submission.
\<close>

theorem non_2xx_response_fails_with_status:
  assumes "onSubmit_start E data st = (st1, Some payload)" and "\<not> ok r"
  shows "submissionError (onSubmit E (Fulfilled r) data st) =
           Some (''API Error: '' @ show_nat (status r) @ '' - An error occurred.'')
       \<and> read_nat (show_nat (status r)) = Some (status r)
       \<and> (status r = 0 \<or> hd (show_nat (status r)) \<noteq> CHR ''0'')
       \<and> \<not> isSubmitted (onSubmit E (Fulfilled r) data st)
       \<and> \<not> isSubmitting (onSubmit E (Fulfilled r) data st)
       \<and> formValues (onSubmit E (Fulfilled r) data st) = formValues st"
  using assms onSubmit_start_suspended(1) [OF assms(1)] read_nat_show_nat [of "status r"]
    show_nat_no_leading_zero [of "status r"]
  by (auto simp: onSubmit_def onSubmit_resume_def api_error_message_def)

lemma show_nat_500: "show_nat 500 = ''500''"
  by code_simp

lemma show_nat_404: "show_nat 404 = ''404''"
  by code_simp

theorem non_2xx_response_witness:
  "onSubmit_start example_env example_data example_filled =
     (example_inflight\<lparr>awaiting := []\<rparr>, Some example_data)
   \<and> \<not> ok \<lparr>status = 500, response_body = []\<rparr>
   \<and> submissionError
        (onSubmit example_env (Fulfilled \<lparr>status = 500, response_body = []\<rparr>) example_data
           example_filled) = Some ''API Error: 500 - An error occurred.''
   \<and> read_nat ''500'' = Some 500
   \<and> formValues
        (onSubmit example_env (Fulfilled \<lparr>status = 500, response_body = []\<rparr>) example_data
           example_filled) = example_values
   \<and> \<not> ok \<lparr>status = 404, response_body = []\<rparr>
   \<and> submissionError
        (onSubmit example_env (Fulfilled \<lparr>status = 404, response_body = []\<rparr>) example_data
           example_filled) = Some ''API Error: 404 - An error occurred.''"
proof -
  have s: "onSubmit_start example_env example_data example_filled =
             (example_inflight\<lparr>awaiting := []\<rparr>, Some example_data)"
    by (simp add: example_start example_inflight_def example_filled_def initial_def)
  have n: "\<not> ok \<lparr>status = 500, response_body = []\<rparr>" by (simp add: ok_def)
  have n': "\<not> ok \<lparr>status = 404, response_body = []\<rparr>" by (simp add: ok_def)
  show ?thesis
    using s n n' non_2xx_response_fails_with_status [OF s n]
      non_2xx_response_fails_with_status [OF s n']
    by (simp add: show_nat_500 show_nat_404 example_filled_def)
qed

text \<open>
  C2 (as amended). When the \<open>fetch\<close> of a submission is answered with a 2xx status, the
  state is succeeded and carries the payload that was sent in the request; the form
  values are reset to the defaults. The body of the response is not read: the state is
  the same for every body.
\<close>

theorem success_carries_sent_payload:
  assumes "onSubmit_start E data st = (st1, Some payload)" and "ok r"
  shows "isSubmitted (onSubmit E (Fulfilled r) data st)
       \<and> submittedData (onSubmit E (Fulfilled r) data st) = Some payload
       \<and> make_payload E data = Some payload
       \<and> formValues (onSubmit E (Fulfilled r) data st) = defaultValues
       \<and> submissionError (onSubmit E (Fulfilled r) data st) = None
       \<and> \<not> isSubmitting (onSubmit E (Fulfilled r) data st)
       \<and> onSubmit E (Fulfilled (r\<lparr>response_body := b\<rparr>)) data st = onSubmit E (Fulfilled r) data st"
  using assms onSubmit_start_suspended [OF assms(1)]
  by (auto simp: onSubmit_def onSubmit_resume_def reset_def ok_def)

theorem success_witness:
  "onSubmit_start example_env example_data example_filled =
     (example_inflight\<lparr>awaiting := []\<rparr>, Some example_data)
   \<and> ok \<lparr>status = 200, response_body = JSON_stringify example_data\<rparr>
   \<and> onSubmit example_env (Fulfilled \<lparr>status = 200, response_body = JSON_stringify example_data\<rparr>)
        example_data example_filled
      = initial\<lparr>isSubmitted := True, submittedData := Some example_data,
                 fetches := [post ''https://example.com/api/onboard'' example_data]\<rparr>"
proof -
  let ?r = "\<lparr>status = 200, response_body = JSON_stringify example_data\<rparr>"
  have s: "onSubmit_start example_env example_data example_filled =
             (example_inflight\<lparr>awaiting := []\<rparr>, Some example_data)"
    by (simp add: example_start example_inflight_def example_filled_def initial_def)
  have k: "ok ?r" by (simp add: ok_def)
  have e: "onSubmit example_env (Fulfilled ?r) example_data example_filled
      = initial\<lparr>isSubmitted := True, submittedData := Some example_data,
                 fetches := [post ''https://example.com/api/onboard'' example_data]\<rparr>"
    by (simp add: onSubmit_def example_start onSubmit_resume_def ok_def reset_def
        example_filled_def initial_def)
  show ?thesis
    using s k e success_carries_sent_payload [OF s k, of "[]"] by simp
qed

text \<open>
  The claim as stated fails: with a 200 response whose body is the empty object, the
  data carried by the succeeded state is not the body of the response.
\<close>

theorem response_body_not_read_counterexample:
  "ok \<lparr>status = 200, response_body = []\<rparr>
   \<and> map_option JSON_stringify
        (submittedData
           (onSubmit example_env (Fulfilled \<lparr>status = 200, response_body = []\<rparr>) example_data
              example_filled))
      \<noteq> Some (response_body \<lparr>status = 200, response_body = []\<rparr>)"
  by (simp add: ok_def onSubmit_def example_start onSubmit_resume_def reset_def
      JSON_stringify_def)

section \<open>Single flight and the two indicators\<close>

text \<open>
  C8. An event of the page runs to its end before the next one starts, and the submit
  event can fire only while the button is enabled. In every reachable state at most one
  \<open>fetch\<close> is awaited; the submitting flag is set exactly while one is; and while it is
  set, no submission can start.
\<close>

theorem single_flight:
  assumes "reachable E st"
  shows "length (awaiting st) \<le> 1
       \<and> (isSubmitting st \<longleftrightarrow> awaiting st \<noteq> [])
       \<and> (isSubmitting st \<longrightarrow> step E st (Submit now) = None)"
  using reachable_invariant [OF assms] by (simp add: lifecycle_invariant_def)

theorem single_flight_witness:
  "reachable example_env example_inflight
   \<and> isSubmitting example_inflight
   \<and> length (awaiting example_inflight) = 1
   \<and> step example_env example_inflight (Submit 1793725260000) = None"
  using example_inflight_reachable
    single_flight [OF example_inflight_reachable, of 1793725260000]
  by (simp add: example_inflight_def)

lemma onSubmit_exclusive:
  "(isSubmitted (onSubmit E outcome data st) \<longleftrightarrow> \<not> error_shown (onSubmit E outcome data st))
   \<and> \<not> isSubmitting (onSubmit E outcome data st)
   \<and> (isSubmitted (onSubmit E outcome data st) \<longleftrightarrow>
        snd (onSubmit_start E data st) \<noteq> None \<and> (\<exists>r. outcome = Fulfilled r \<and> ok r))"
proof (cases "onSubmit_start E data st")
  case (Pair st' p)
  show ?thesis
  proof (cases p)
    case None
    then show ?thesis
      using Pair onSubmit_start_ended(1) [of E data st st']
      by (simp add: onSubmit_def error_shown_def messages_nonempty)
  next
    case (Some payload)
    then show ?thesis
      using Pair onSubmit_start_suspended(1) [of E data st st' payload]
      by (cases outcome)
        (auto simp: onSubmit_def onSubmit_resume_def reset_def error_shown_def
          messages_nonempty)
  qed
qed

lemma onSubmit_start_clears:
  "snd (onSubmit_start E data st) \<noteq> None \<Longrightarrow>
   \<not> isSubmitted (fst (onSubmit_start E data st))
   \<and> submissionError (fst (onSubmit_start E data st)) = None
   \<and> isSubmitting (fst (onSubmit_start E data st))"
  using onSubmit_start_suspended(1) [of E data st "fst (onSubmit_start E data st)"]
  by (cases "onSubmit_start E data st") auto

lemma settle_completes:
  assumes "reachable E s" and "step E s (Settle outcome) = Some s'"
  shows "\<not> isSubmitting s' \<and> (isSubmitted s' \<longleftrightarrow> \<not> error_shown s')
       \<and> (isSubmitted s' \<longleftrightarrow> (\<exists>r. outcome = Fulfilled r \<and> ok r))"
proof -
  from assms(2) obtain payload rest where
    a: "awaiting s = payload # rest" and s': "s' = onSubmit_resume outcome payload (s\<lparr>awaiting := rest\<rparr>)"
    by (auto split: list.splits)
  have i: "lifecycle_invariant s" using assms(1) by (rule reachable_invariant)
  with a have "isSubmitting s" "\<not> isSubmitted s" "submissionError s = None"
    by (auto simp: lifecycle_invariant_def split: if_splits)
  then show ?thesis
    unfolding s'
    by (cases outcome)
      (auto simp: onSubmit_resume_def reset_def error_shown_def messages_nonempty)
qed

text \<open>
  C10. A run of \<open>onSubmit\<close> ends with exactly one of the two indicators set and the
  submitting flag off; success is set exactly when a request was sent and answered with
  a 2xx status. Both indicators are clear when the run reaches its \<open>await\<close>. In every
  reachable state the two indicators are not both set, and the state in which a
  \<open>fetch\<close> has settled has the submitting flag off and exactly one indicator set.
\<close>

theorem indicators_exclusive:
  "(isSubmitted (onSubmit E outcome data st) \<longleftrightarrow> \<not> error_shown (onSubmit E outcome data st))
   \<and> \<not> isSubmitting (onSubmit E outcome data st)
   \<and> (isSubmitted (onSubmit E outcome data st) \<longleftrightarrow>
        snd (onSubmit_start E data st) \<noteq> None \<and> (\<exists>r. outcome = Fulfilled r \<and> ok r))
   \<and> (snd (onSubmit_start E data st) \<noteq> None \<longrightarrow>
        \<not> isSubmitted (fst (onSubmit_start E data st))
        \<and> submissionError (fst (onSubmit_start E data st)) = None)
   \<and> (reachable E s \<longrightarrow> \<not> (isSubmitted s \<and> error_shown s))
   \<and> (reachable E s \<and> step E s (Settle outcome) = Some s' \<longrightarrow>
        \<not> isSubmitting s' \<and> (isSubmitted s' \<longleftrightarrow> \<not> error_shown s'))"
proof -
  have "reachable E s \<longrightarrow> \<not> (isSubmitted s \<and> error_shown s)"
    using reachable_invariant [of E s]
    by (auto simp: lifecycle_invariant_def error_shown_def split: if_splits)
  then show ?thesis
    using onSubmit_exclusive [of E outcome data st] onSubmit_start_clears [of E data st]
      settle_completes [of E s outcome s']
    by blast
qed

theorem indicators_exclusive_witness:
  "snd (onSubmit_start example_env example_data example_filled) \<noteq> None
   \<and> \<not> isSubmitted (onSubmit example_env (Fulfilled \<lparr>status = 500, response_body = []\<rparr>)
         example_data example_filled)
   \<and> error_shown (onSubmit example_env (Fulfilled \<lparr>status = 500, response_body = []\<rparr>)
         example_data example_filled)
   \<and> reachable example_env example_inflight
   \<and> step example_env example_inflight (Settle (Fulfilled \<lparr>status = 200, response_body = []\<rparr>))
       = Some (initial\<lparr>isSubmitted := True, submittedData := Some example_data,
                 fetches := [post ''https://example.com/api/onboard'' example_data]\<rparr>)
   \<and> \<not> error_shown (initial\<lparr>isSubmitted := True, submittedData := Some example_data,
                 fetches := [post ''https://example.com/api/onboard'' example_data]\<rparr>)"
proof -
  let ?done = "initial\<lparr>isSubmitted := True, submittedData := Some example_data,
                 fetches := [post ''https://example.com/api/onboard'' example_data]\<rparr>"
  have a: "snd (onSubmit_start example_env example_data example_filled) \<noteq> None"
    by (simp add: example_start)
  have n: "\<not> ok \<lparr>status = 500, response_body = []\<rparr>" by (simp add: ok_def)
  have b: "step example_env example_inflight (Settle (Fulfilled \<lparr>status = 200, response_body = []\<rparr>))
       = Some ?done"
    by (simp add: example_inflight_def example_filled_def initial_def onSubmit_resume_def
        ok_def reset_def)
  show ?thesis
    using a n b example_inflight_reachable
      indicators_exclusive [of example_env "Fulfilled \<lparr>status = 500, response_body = []\<rparr>"
        example_data example_filled example_inflight]
      indicators_exclusive [of example_env "Fulfilled \<lparr>status = 200, response_body = []\<rparr>"
        example_data example_filled example_inflight ?done]
    by auto
qed

section \<open>Validation of the start date\<close>

lemma date_only_parse:
  assumes "parse_date_only s = Some (y, m, d)" "1 \<le> m" "m \<le> 12" "1 \<le> d" "d \<le> DaysInMonth y m"
  shows "Date_parse other s = TimeClip (MakeDay y (m - 1) d * msPerDay)"
  using assms by (simp add: Date_parse_def MakeDate_def MakeTime_def)

lemma start_date_accepts_iff:
  "accepts (projectStartDate_schema E now) (JStr s) \<longleftrightarrow> s \<noteq> [] \<and> start_date_refinement E now s"
  by (simp add: accepts_def projectStartDate_schema_def z_refine_def z_string_def min_len_def)

lemma start_date_required:
  "\<not> accepts (projectStartDate_schema E now) (JStr [])"
  "\<not> accepts (projectStartDate_schema E now) JUndefined"
  by (simp_all add: accepts_def projectStartDate_schema_def z_refine_def z_string_def min_len_def)

lemma start_date_unparseable:
  "Date_parse (other_formats E) s = None \<Longrightarrow> \<not> accepts (projectStartDate_schema E now) (JStr s)"
  by (simp add: start_date_accepts_iff start_date_refinement_def)

lemma local_midnight: "setHours_0 z now = TimeClip (Day (now + z) * msPerDay - z)"
  by (simp add: setHours_0_def UTC_def LocalTime_def MakeDate_def MakeTime_def)

lemma today_rejected_west_of_Greenwich:
  assumes "tza E < 0"
    and "parse_date_only s = Some (y, m, d)" "1 \<le> m" "m \<le> 12" "1 \<le> d" "d \<le> DaysInMonth y m"
    and "MakeDay y (m - 1) d = Day (LocalTime (tza E) now)"
  shows "\<not> accepts (projectStartDate_schema E now) (JStr s)"
  using assms(1,7)
  by (auto simp: start_date_accepts_iff start_date_refinement_iff date_only_parse [OF assms(2-6)]
      local_midnight LocalTime_def TimeClip_def split: if_splits)

text \<open>
  In a zone at or east of Greenwich (and less than a day ahead), a date-only string is
  accepted exactly when its calendar date is the local date of today or a later one.
\<close>

lemma calendar_comparison_east_of_Greenwich:
  assumes "0 \<le> tza E" "tza E < msPerDay"
    and "parse_date_only s = Some (y, m, d)" "1 \<le> m" "m \<le> 12" "1 \<le> d" "d \<le> DaysInMonth y m"
    and "TimeClip (MakeDay y (m - 1) d * msPerDay) \<noteq> None"
    and "setHours_0 (tza E) now \<noteq> None"
  shows "accepts (projectStartDate_schema E now) (JStr s) \<longleftrightarrow>
           Day (LocalTime (tza E) now) \<le> MakeDay y (m - 1) d"
proof -
  have "s \<noteq> []" using assms(3) by (auto simp: parse_date_only_def)
  moreover have "Day (now + tza E) * msPerDay - tza E \<le> MakeDay y (m - 1) d * msPerDay
      \<longleftrightarrow> Day (now + tza E) \<le> MakeDay y (m - 1) d"
    using assms(1,2) unfolding msPerDay_def by arith
  ultimately show ?thesis
    using assms(8,9)
    by (auto simp: start_date_accepts_iff start_date_refinement_iff date_only_parse [OF assms(3-7)]
        local_midnight LocalTime_def TimeClip_def split: if_splits)
qed

lemma example_date_only: "parse_date_only (jstr ''2026-11-03'') = Some (2026, 11, 3)"
  by (simp add: parse_date_only_def jstr_def decimal_value_def digit_value_def)

text \<open>
  C6. The field is required and an unparseable date is rejected (lemmas
  \<open>start_date_required\<close> and \<open>start_date_unparseable\<close>), and in a zone at or east of
  Greenwich a date-only string is accepted exactly when its calendar date is today or
  later. West of Greenwich today's date is rejected (lemma
  \<open>today_rejected_west_of_Greenwich\<close>): the date-only string is read as midnight UTC,
  which is earlier than the local midnight it is compared with. Here with the clock at
  2026-11-03 12:00 in a zone at UTC-05:00 and the start date 2026-11-03: the date is
  rejected, and it is the local date of today.
\<close>

theorem start_date_today_rejected:
  "projectStartDate_schema west_env 1793725200000 (JStr (jstr ''2026-11-03''))
     = Parsed (jstr ''2026-11-03'') [''Project start date must be today or later.'']
   \<and> iso_date (LocalTime (tza west_env) 1793725200000) = jstr ''2026-11-03''"
proof -
  have t: "tza west_env = - 18000000" "other_formats west_env = (\<lambda>s. None)"
    by (simp_all add: west_env_def example_env_def)
  have l: "LocalTime (- 18000000) 1793725200000
             = MakeDate (MakeDay 2026 10 3) (MakeTime 0 0 0 0) + 43200000"
    by (simp add: LocalTime_def example_time)
  have d: "Day (LocalTime (- 18000000) 1793725200000) = MakeDay 2026 10 3"
    by (simp add: LocalTime_def Day_def msPerDay_def MakeDay_def DayFromYear_def month_start_def
        leap_def DaysInYear_def Let_def)
  have "\<not> accepts (projectStartDate_schema west_env 1793725200000) (JStr (jstr ''2026-11-03''))"
    by (rule today_rejected_west_of_Greenwich [OF _ example_date_only])
      (simp_all add: t d DaysInMonth_def)
  then have a: "projectStartDate_schema west_env 1793725200000 (JStr (jstr ''2026-11-03''))
     = Parsed (jstr ''2026-11-03'') [''Project start date must be today or later.'']"
    by (simp add: start_date_accepts_iff)
      (simp add: projectStartDate_schema_def z_refine_def z_string_def min_len_def jstr_def)
  have y: "YearFromTime (LocalTime (- 18000000) 1793725200000) = 2026"
    unfolding YearFromTime_def d
    by (rule YearFromDay_unique)
      (simp_all add: MakeDay_def DayFromYear_def month_start_def leap_def DaysInYear_def Let_def)
  have w: "DayWithinYear (LocalTime (- 18000000) 1793725200000) = 306"
    by (simp add: DayWithinYear_def d y)
      (simp add: MakeDay_def DayFromYear_def month_start_def leap_def DaysInYear_def Let_def)
  have m: "MonthFromTime (LocalTime (- 18000000) 1793725200000) = 10"
    by (simp add: MonthFromTime_def w y leap_def DaysInYear_def Let_def)
  have dt: "DateFromTime (LocalTime (- 18000000) 1793725200000) = 3"
    by (simp add: DateFromTime_def w y m leap_def DaysInYear_def month_start_def)
  have "iso_date (LocalTime (- 18000000) 1793725200000) = jstr ''2026-11-03''"
    by (simp add: iso_date_def y m dt year_digits_def fixed_digits_4 fixed_digits_2
        digit_unit_def jstr_def)
  with a show ?thesis by (simp add: t)
qed

section \<open>The request body\<close>

lemma is_digit_unit: "d < 10 \<Longrightarrow> is_digit (digit_unit d)"
  using unat_digit_unit [of d] by (simp add: is_digit_def word_le_nat_alt)

lemma fixed_digits_are_digits: "list_all is_digit (fixed_digits w n)"
  by (simp add: fixed_digits_def list_all_iff is_digit_unit)

lemma iso_date_shape:
  assumes "0 \<le> YearFromTime t" "YearFromTime t \<le> 9999"
  shows "calendar_date_string (iso_date t)"
  using assms
  by (simp add: calendar_date_string_def iso_date_def year_digits_def length_fixed_digits
      nth_append fixed_digits_are_digits)

lemma JSON_stringify_members:
  assumes "budgetUsd p = None \<or> (\<exists>x. budgetUsd p = Some (Finite x))"
  shows "JSON_stringify p =
     [(''fullName'', JStr (fullName p)), (''email'', JStr (email p)),
      (''companyName'', JStr (companyName p)), (''services'', JArr (map JStr (services p)))]
     @ (case budgetUsd p of None \<Rightarrow> [] | Some n \<Rightarrow> [(''budgetUsd'', JNum n)])
     @ [(''projectStartDate'', JStr (projectStartDate p)), (''acceptTerms'', JBool (acceptTerms p))]"
  using assms by (auto simp: JSON_stringify_def json_number_def)

text \<open>
  C9 (as amended). For validated form data and a configured endpoint, \<open>onSubmit\<close> sends
  one POST request whose body is the JSON object with \<open>fullName\<close>, \<open>email\<close>,
  \<open>companyName\<close>, \<open>services\<close> and \<open>acceptTerms: true\<close> of the data, with \<open>budgetUsd\<close> as
  a number (an integer from 100 to 1000000) when a budget is present and without that
  member when it is absent, and with \<open>projectStartDate\<close> the UTC calendar date of the
  parsed start date as \<open>toISOString\<close> writes it: of the form \<open>YYYY-MM-DD\<close> when its year
  is between 0 and 9999, and in the expanded form \<open>+YYYYYY-MM-DD\<close> for a later year.
\<close>

theorem request_body_of_validated_form:
  assumes "formSchema E now input = Success data"
    and "NEXT_PUBLIC_ONBOARD_URL E = Some apiUrl" and "apiUrl \<noteq> []"
  shows "\<exists>t. Date_parse (other_formats E) (projectStartDate data) = Some t
     \<and> onSubmit_start E data st =
         (st\<lparr>isSubmitting := True, isSubmitted := False, submissionError := None,
             fetches := fetches st @
               [\<lparr>url = apiUrl, http_method = ''POST'',
                 headers = [(''Content-Type'', ''application/json'')],
                 body =
                   [(''fullName'', JStr (fullName data)), (''email'', JStr (email data)),
                    (''companyName'', JStr (companyName data)),
                    (''services'', JArr (map JStr (services data)))]
                   @ (case budgetUsd data of None \<Rightarrow> [] | Some n \<Rightarrow> [(''budgetUsd'', JNum n)])
                   @ [(''projectStartDate'', JStr (iso_date t)),
                      (''acceptTerms'', JBool True)]\<rparr>]\<rparr>,
          Some (data\<lparr>projectStartDate := iso_date t\<rparr>))
     \<and> (0 \<le> YearFromTime t \<and> YearFromTime t \<le> 9999 \<longrightarrow>
          calendar_date_string (iso_date t)
          \<and> parse_date_only (iso_date t)
              = Some (YearFromTime t, MonthFromTime t + 1, DateFromTime t))
     \<and> (9999 < YearFromTime t \<longrightarrow> length (iso_date t) = 13 \<and> hd (iso_date t) = 0x2B)
     \<and> (budgetUsd data = None
          \<or> (\<exists>x. budgetUsd data = Some (Finite x) \<and> 100 \<le> x \<and> x \<le> 1000000
                \<and> of_int \<lfloor>x\<rfloor> = x))"
proof -
  obtain t where t: "Date_parse (other_formats E) (projectStartDate data) = Some t"
    and p: "make_payload E data = Some (data\<lparr>projectStartDate := iso_date t\<rparr>)"
    using validated_payload [OF assms(1)] by blast
  have b: "budgetUsd data = None
          \<or> (\<exists>x. budgetUsd data = Some (Finite x) \<and> 100 \<le> x \<and> x \<le> 1000000
                \<and> of_int \<lfloor>x\<rfloor> = x)"
    using budget_parsed [OF formSchema_Success(5) [OF assms(1)]] .
  have a: "acceptTerms data"
    using acceptTerms_parsed [OF formSchema_Success(7) [OF assms(1)]] by simp
  have j: "JSON_stringify (data\<lparr>projectStartDate := iso_date t\<rparr>) =
     [(''fullName'', JStr (fullName data)), (''email'', JStr (email data)),
      (''companyName'', JStr (companyName data)), (''services'', JArr (map JStr (services data)))]
     @ (case budgetUsd data of None \<Rightarrow> [] | Some n \<Rightarrow> [(''budgetUsd'', JNum n)])
     @ [(''projectStartDate'', JStr (iso_date t)), (''acceptTerms'', JBool True)]"
    using b a by (subst JSON_stringify_members) auto
  have s: "onSubmit_start E data st =
         (st\<lparr>isSubmitting := True, isSubmitted := False, submissionError := None,
             fetches := fetches st @
               [\<lparr>url = apiUrl, http_method = ''POST'',
                 headers = [(''Content-Type'', ''application/json'')],
                 body = JSON_stringify (data\<lparr>projectStartDate := iso_date t\<rparr>)\<rparr>]\<rparr>,
          Some (data\<lparr>projectStartDate := iso_date t\<rparr>))"
    using assms(2,3) by (simp add: onSubmit_start_def p post_def Let_def)
  show ?thesis
    using t s b iso_date_shape [of t] iso_date_calendar(2) [of t] iso_date_expanded [of t]
    unfolding j by (intro exI [of _ t]) simp
qed


lemma example_url: "NEXT_PUBLIC_ONBOARD_URL example_env = Some ''https://example.com/api/onboard''"
  by (simp add: example_env_def)

theorem request_body_witness:
  "formSchema example_env 1793725200000 example_values = Success example_data
   \<and> fetches (fst (onSubmit_start example_env example_data example_filled)) =
        [\<lparr>url = ''https://example.com/api/onboard'', http_method = ''POST'',
          headers = [(''Content-Type'', ''application/json'')],
          body =
            [(''fullName'', JStr (jstr ''Jane O'Brien'')),
             (''email'', JStr (jstr ''jane@example.com'')),
             (''companyName'', JStr (jstr ''Acme'')),
             (''services'', JArr [JStr (jstr ''Branding'')]),
             (''budgetUsd'', JNum (Finite 5000)),
             (''projectStartDate'', JStr (jstr ''2026-11-03'')),
             (''acceptTerms'', JBool True)]\<rparr>]
   \<and> calendar_date_string (jstr ''2026-11-03'')"
proof -
  obtain t where
    t: "Date_parse (other_formats example_env) (projectStartDate example_data) = Some t"
    and s: "onSubmit_start example_env example_data example_filled =
         (example_filled\<lparr>isSubmitting := True, isSubmitted := False, submissionError := None,
             fetches := fetches example_filled @
               [\<lparr>url = ''https://example.com/api/onboard'', http_method = ''POST'',
                 headers = [(''Content-Type'', ''application/json'')],
                 body =
                   [(''fullName'', JStr (fullName example_data)),
                    (''email'', JStr (email example_data)),
                    (''companyName'', JStr (companyName example_data)),
                    (''services'', JArr (map JStr (services example_data)))]
                   @ (case budgetUsd example_data of None \<Rightarrow> []
                      | Some n \<Rightarrow> [(''budgetUsd'', JNum n)])
                   @ [(''projectStartDate'', JStr (iso_date t)),
                      (''acceptTerms'', JBool True)]\<rparr>]\<rparr>,
          Some (example_data\<lparr>projectStartDate := iso_date t\<rparr>))"
    and c: "0 \<le> YearFromTime t \<and> YearFromTime t \<le> 9999 \<longrightarrow> calendar_date_string (iso_date t)"
    using request_body_of_validated_form [OF example_schema example_url, of example_filled]
    by auto
  have t': "t = MakeDate (MakeDay 2026 10 3) (MakeTime 0 0 0 0)"
    using t by (simp add: example_env_def example_data_def example_parse)
  have y: "YearFromTime t = 2026"
    unfolding t' using calendar_roundtrip(1) [of 10 3 2026] by (simp add: DaysInMonth_def)
  have i: "iso_date t = jstr ''2026-11-03''" unfolding t' by (rule example_iso)
  show ?thesis
    using example_schema s c y
    by (simp add: i example_data_def example_filled_def initial_def)
qed

lemma far_parse:
  "Date_parse (\<lambda>s. None) (jstr ''+010000-01-01'')
     = Some (MakeDate (MakeDay 10000 0 1) (MakeTime 0 0 0 0))"
  by (simp add: Date_parse_def parse_date_only_def jstr_def decimal_value_def digit_value_def
      DaysInMonth_def TimeClip_def MakeDate_def MakeDay_def MakeTime_def DayFromYear_def
      month_start_def leap_def DaysInYear_def msPerDay_def Let_def)

lemma far_time: "MakeDate (MakeDay 10000 0 1) (MakeTime 0 0 0 0) = 253402300800000"
  by (simp add: MakeDate_def MakeDay_def MakeTime_def DayFromYear_def
      month_start_def leap_def DaysInYear_def msPerDay_def Let_def)

lemma far_iso:
  "iso_date (MakeDate (MakeDay 10000 0 1) (MakeTime 0 0 0 0)) = jstr ''+010000-01-01''"
proof -
  have r: "YearFromTime (MakeDate (MakeDay 10000 0 1) (MakeTime 0 0 0 0)) = 10000"
    "MonthFromTime (MakeDate (MakeDay 10000 0 1) (MakeTime 0 0 0 0)) = 0"
    "DateFromTime (MakeDate (MakeDay 10000 0 1) (MakeTime 0 0 0 0)) = 1"
    using calendar_roundtrip [of 0 1 10000] by (simp_all add: DaysInMonth_def)
  show ?thesis
    by (simp add: iso_date_def r year_digits_def fixed_digits_6 fixed_digits_2 digit_unit_def
        jstr_def)
qed

lemma far_start_date:
  "projectStartDate_schema example_env 1793725200000 (JStr (jstr ''+010000-01-01''))
     = Parsed (jstr ''+010000-01-01'') []"
  by (simp add: projectStartDate_schema_def z_refine_def z_string_def min_len_def
      start_date_refinement_def example_env_def far_parse far_time example_today)
    (simp add: jstr_def)

text \<open>
  The claim as stated fails: the start date \<open>+010000-01-01\<close> passes validation and is
  sent as \<open>+010000-01-01\<close>, which is not of the form \<open>YYYY-MM-DD\<close>.
\<close>

theorem far_year_counterexample:
  "formSchema example_env 1793725200000
     (example_values(''projectStartDate'' := JStr (jstr ''+010000-01-01'')))
     = Success (example_data\<lparr>projectStartDate := jstr ''+010000-01-01''\<rparr>)
   \<and> map_option projectStartDate
        (make_payload example_env (example_data\<lparr>projectStartDate := jstr ''+010000-01-01''\<rparr>))
      = Some (jstr ''+010000-01-01'')
   \<and> \<not> calendar_date_string (jstr ''+010000-01-01'')"
proof -
  have "make_payload example_env (example_data\<lparr>projectStartDate := jstr ''+010000-01-01''\<rparr>)
          = Some (example_data\<lparr>projectStartDate := jstr ''+010000-01-01''\<rparr>)"
    by (simp add: make_payload_def example_env_def example_data_def far_parse
        split_toISOString far_iso)
  then show ?thesis
    using example_schema_date [OF far_start_date]
    by (simp add: calendar_date_string_def jstr_def)
qed

section \<open>Further properties\<close>

text \<open>
  A budget that is present: a number is accepted exactly when it is an integer from 100
  to 1000000 (so 99 and 1000001 are rejected, 100 and 1000000 accepted), and the empty
  string is accepted and becomes an absent budget, without the range check.
\<close>

theorem budget_present_validation:
  "(accepts budgetUsd_schema (JNum n) \<longleftrightarrow>
      isInteger n \<and> num_ge n (Finite 100) \<and> num_le n (Finite 1000000))
   \<and> budgetUsd_schema (JStr []) = Parsed None []
   \<and> \<not> accepts budgetUsd_schema (JNum (Finite 99))
   \<and> accepts budgetUsd_schema (JNum (Finite 100))
   \<and> accepts budgetUsd_schema (JNum (Finite 1000000))
   \<and> \<not> accepts budgetUsd_schema (JNum (Finite 1000001))"
  using budget_number_iff [of n] budget_empty_string budget_boundaries by simp

theorem budget_present_witness:
  "accepts budgetUsd_schema (JNum (Finite 5000))
   \<and> isInteger (Finite 5000)
   \<and> \<not> accepts budgetUsd_schema (JNum PosInfinity)
   \<and> \<not> accepts budgetUsd_schema (JNum NaN)"
  using budget_present_validation [of "Finite 5000"] budget_present_validation [of PosInfinity]
    budget_present_validation [of NaN]
  by (simp add: num_ge_def)

text \<open>
  The start date in a zone at Greenwich: with the clock at 2026-11-03 17:00 UTC, today's
  date is accepted and yesterday's is rejected, as the comparison of calendar dates in
  the zones at or east of Greenwich says.
\<close>

lemma yesterday_date_only: "parse_date_only (jstr ''2026-11-02'') = Some (2026, 11, 2)"
  by (simp add: parse_date_only_def jstr_def decimal_value_def digit_value_def)

theorem calendar_comparison_witness:
  "accepts (projectStartDate_schema example_env 1793725200000) (JStr (jstr ''2026-11-03''))
   \<and> \<not> accepts (projectStartDate_schema example_env 1793725200000) (JStr (jstr ''2026-11-02''))
   \<and> Day (LocalTime (tza example_env) 1793725200000) = MakeDay 2026 10 3
   \<and> MakeDay 2026 10 2 < MakeDay 2026 10 3"
proof -
  have t: "tza example_env = 0" by (simp add: example_env_def)
  have d: "Day (LocalTime 0 1793725200000) = MakeDay 2026 10 3"
    by (simp add: LocalTime_def Day_def msPerDay_def MakeDay_def DayFromYear_def month_start_def
        leap_def DaysInYear_def Let_def)
  have lt: "MakeDay 2026 10 2 < MakeDay 2026 10 3"
    by (simp add: MakeDay_def Let_def)
  have c1: "TimeClip (MakeDay 2026 (11 - 1) 3 * msPerDay) \<noteq> None"
    "TimeClip (MakeDay 2026 (11 - 1) 2 * msPerDay) \<noteq> None"
    by (simp_all add: TimeClip_def MakeDay_def DayFromYear_def month_start_def
        leap_def DaysInYear_def Let_def msPerDay_def)
  have c2: "setHours_0 (tza example_env) 1793725200000 \<noteq> None"
    by (simp add: t example_today)
  have a: "accepts (projectStartDate_schema example_env 1793725200000) (JStr (jstr ''2026-11-03''))
      \<longleftrightarrow> Day (LocalTime (tza example_env) 1793725200000) \<le> MakeDay 2026 (11 - 1) 3"
    by (rule calendar_comparison_east_of_Greenwich [OF _ _ example_date_only _ _ _ _ c1(1) c2])
      (simp_all add: t msPerDay_def DaysInMonth_def)
  have b: "accepts (projectStartDate_schema example_env 1793725200000) (JStr (jstr ''2026-11-02''))
      \<longleftrightarrow> Day (LocalTime (tza example_env) 1793725200000) \<le> MakeDay 2026 (11 - 1) 2"
    by (rule calendar_comparison_east_of_Greenwich [OF _ _ yesterday_date_only _ _ _ _ c1(2) c2])
      (simp_all add: t msPerDay_def DaysInMonth_def)
  show ?thesis using a b d lt by (simp add: t)
qed

text \<open>
  A transport fault: when the \<open>fetch\<close> of a submission is rejected, the state is failed
  with the generic network message and the form values are kept.
\<close>

theorem transport_fault_fails:
  assumes "onSubmit_start E data st = (st1, Some payload)"
  shows "submissionError (onSubmit E Rejected data st)
           = Some ''Network Error: Could not connect to the API.''
       \<and> \<not> isSubmitted (onSubmit E Rejected data st)
       \<and> \<not> isSubmitting (onSubmit E Rejected data st)
       \<and> formValues (onSubmit E Rejected data st) = formValues st"
  using assms onSubmit_start_suspended(1) [OF assms]
  by (auto simp: onSubmit_def onSubmit_resume_def network_message_def)

theorem transport_fault_witness:
  "onSubmit_start example_env example_data example_filled =
     (example_inflight\<lparr>awaiting := []\<rparr>, Some example_data)
   \<and> onSubmit example_env Rejected example_data example_filled =
       example_filled
         \<lparr>submissionError := Some ''Network Error: Could not connect to the API.'',
          fetches := [post ''https://example.com/api/onboard'' example_data]\<rparr>"
proof -
  have s: "onSubmit_start example_env example_data example_filled =
             (example_inflight\<lparr>awaiting := []\<rparr>, Some example_data)"
    by (simp add: example_start example_inflight_def example_filled_def initial_def)
  have e: "onSubmit example_env Rejected example_data example_filled =
       example_filled
         \<lparr>submissionError := Some ''Network Error: Could not connect to the API.'',
          fetches := [post ''https://example.com/api/onboard'' example_data]\<rparr>"
    by (simp add: onSubmit_def example_start onSubmit_resume_def network_message_def
        example_filled_def initial_def)
  show ?thesis using s e transport_fault_fails [OF s] by simp
qed

text \<open>
  A form that fails validation is not submitted: the issues are shown and \<open>onSubmit\<close>
  does not run. With no service selected there is the issue \<open>Please select at least one
  service.\<close> and no request.
\<close>

lemma services_empty_issue:
  "services_schema (JArr []) = Parsed [] [''Please select at least one service.'']"
  by (simp add: services_schema_def z_array_min_def)

theorem invalid_form_is_not_submitted:
  "(formSchema E now (formValues st) = Failure errs \<longrightarrow>
      handleSubmit E now st = st\<lparr>errors := errs\<rparr>)
   \<and> (formValues st ''services'' = JArr [] \<longrightarrow>
        (''services'', ''Please select at least one service.'')
          \<in> set (errors (handleSubmit E now st))
        \<and> fetches (handleSubmit E now st) = fetches st
        \<and> awaiting (handleSubmit E now st) = awaiting st
        \<and> isSubmitting (handleSubmit E now st) = isSubmitting st)"
proof -
  have "formValues st ''services'' = JArr [] \<Longrightarrow>
          \<exists>errs. formSchema E now (formValues st) = Failure errs
            \<and> (''services'', ''Please select at least one service.'') \<in> set errs"
    by (simp add: formSchema_def Let_def services_empty_issue at_path_def)
  then show ?thesis by (auto simp: handleSubmit_def)
qed

theorem invalid_form_witness:
  "formValues initial ''services'' = JArr []
   \<and> (''services'', ''Please select at least one service.'')
        \<in> set (errors (handleSubmit example_env 1793725200000 initial))
   \<and> fetches (handleSubmit example_env 1793725200000 initial) = []"
  using invalid_form_is_not_submitted [of example_env 1793725200000 initial]
  by (simp add: initial_def defaultValues_def)

end
